theory Spec2Isabelle
  imports Main
begin

section \<open>JavaScript values used by server.mjs\<close>

text \<open>
  The program is one module, \<^verbatim>\<open>server.mjs\<close>: a Secret Redactor (\<^verbatim>\<open>redactSecrets\<close>), an
  error-detail extractor (\<^verbatim>\<open>extractErrorMessage\<close>), the HTTP Gateway (\<^verbatim>\<open>quoFetch\<close>) and 21
  tool handlers registered with \<^verbatim>\<open>server.tool\<close>.

  Strings. A JavaScript string is a sequence of UTF-16 code units. Here a string is a
  \<^typ>\<open>string\<close>, one \<^typ>\<open>char\<close> per code unit, so the model covers the strings whose
  code units lie in 0..255. In that range the characters matched by the regular
  expression class \<^verbatim>\<open>\s\<close>, and stripped by \<^verbatim>\<open>String.prototype.trim\<close>, are the seven below.
\<close>

definition is_space :: "char \<Rightarrow> bool" where
  "is_space c = (c \<in> set [CHR 0x09, CHR 0x0A, CHR 0x0B, CHR 0x0C, CHR 0x0D, CHR 0x20, CHR 0xA0])"

definition trim :: "string \<Rightarrow> string" where
  "trim s = rev (dropWhile is_space (rev (dropWhile is_space s)))"

text \<open>\<^verbatim>\<open>String.prototype.startsWith\<close> and \<^verbatim>\<open>String.prototype.includes\<close>.\<close>

fun startsWith :: "string \<Rightarrow> string \<Rightarrow> bool" where
  "startsWith s [] = True"
| "startsWith [] (p # ps) = False"
| "startsWith (c # cs) (p # ps) = (c = p \<and> startsWith cs ps)"

fun js_includes :: "string \<Rightarrow> string \<Rightarrow> bool" where
  "js_includes [] p = (p = [])"
| "js_includes (c # cs) p = (startsWith (c # cs) p \<or> js_includes cs p)"

text \<open>
  \<^verbatim>\<open>text.replace(pattern, replacement)\<close> with a \<^emph>\<open>string\<close> pattern: only the first
  occurrence of the pattern is replaced. (The replacement strings of the program contain
  no \<^verbatim>\<open>$\<close>, so the replacement is inserted as it is.)
\<close>

fun replace_first :: "string \<Rightarrow> string \<Rightarrow> string \<Rightarrow> string" where
  "replace_first [] pat rep = (if pat = [] then rep else [])"
| "replace_first (c # cs) pat rep =
     (if startsWith (c # cs) pat then rep @ drop (length pat) (c # cs)
      else c # replace_first cs pat rep)"

text \<open>
  The regular expression of \<^verbatim>\<open>redactSecrets\<close>,
  \<^verbatim>\<open>/(Authorization["']?\s*:\s*["']?)[^"',\s}]+/gi\<close>.
  With the flag \<^verbatim>\<open>i\<close> (and no flag \<^verbatim>\<open>u\<close>) a code unit matches an ASCII letter of the
  pattern exactly when it is that letter in either case. The quantifiers are greedy; giving
  back a quote or white space never lets a later part match, since the classes that follow
  each other are disjoint, so the match at a position is found without backtracking.
\<close>

fun match_ci :: "(char \<times> char) list \<Rightarrow> string \<Rightarrow> string option" where
  "match_ci [] s = Some s"
| "match_ci (p # ps) [] = None"
| "match_ci (p # ps) (c # cs) = (if c = fst p \<or> c = snd p then match_ci ps cs else None)"

definition authorization_letters :: "(char \<times> char) list" where
  "authorization_letters = zip ''authorization'' ''AUTHORIZATION''"

definition is_quote :: "char \<Rightarrow> bool" where
  "is_quote c = (c = CHR 0x22 \<or> c = CHR 0x27)"

definition opt_quote :: "string \<Rightarrow> string" where
  "opt_quote s = (case s of [] \<Rightarrow> [] | c # cs \<Rightarrow> if is_quote c then cs else c # cs)"

definition value_char :: "char \<Rightarrow> bool" where
  "value_char c = (\<not> is_quote c \<and> c \<noteq> CHR '','' \<and> \<not> is_space c \<and> c \<noteq> CHR ''}'')"

text \<open>
  \<open>match_authorization s\<close> matches the expression at the start of \<open>s\<close>: the result is the
  text of group 1 and the text left after the whole match.
\<close>

definition match_authorization :: "string \<Rightarrow> (string \<times> string) option" where
  "match_authorization s =
     (case match_ci authorization_letters s of
        None \<Rightarrow> None
      | Some r1 \<Rightarrow>
          (case dropWhile is_space (opt_quote r1) of
             [] \<Rightarrow> None
           | c # r2 \<Rightarrow>
               if c \<noteq> CHR '':'' then None
               else
                 let r3 = opt_quote (dropWhile is_space r2);
                     v = takeWhile value_char r3
                 in if v = [] then None
                    else Some (take (length s - length r3) s, dropWhile value_char r3)))"

text \<open>
  \<^verbatim>\<open>text.replace(/.../gi, "$1***REDACTED***")\<close>: every match, from left to right, is
  replaced by its group 1 followed by the placeholder; the search goes on after the match.
  The counter \<open>skip\<close> is the number of characters of the current match still to pass over.
\<close>

fun replace_authorization_from :: "nat \<Rightarrow> string \<Rightarrow> string" where
  "replace_authorization_from skip [] = []"
| "replace_authorization_from (Suc skip) (c # cs) = replace_authorization_from skip cs"
| "replace_authorization_from 0 (c # cs) =
     (case match_authorization (c # cs) of
        None \<Rightarrow> c # replace_authorization_from 0 cs
      | Some (g1, rest) \<Rightarrow>
          g1 @ ''***REDACTED***'' @ replace_authorization_from (length cs - length rest) cs)"

definition replace_authorization :: "string \<Rightarrow> string" where
  "replace_authorization s = replace_authorization_from 0 s"

text \<open>
  \<^verbatim>\<open>String(n)\<close> and \<^verbatim>\<open>`${n}`\<close> for a number. Numbers are integers here (the status code,
  the timeout, a page size); IEEE doubles with a fraction are outside the model.
\<close>

fun dec_nat :: "nat \<Rightarrow> string" where
  "dec_nat n =
     (if n < 10 then [''0123456789'' ! n] else dec_nat (n div 10) @ [''0123456789'' ! (n mod 10)])"

definition String_number :: "int \<Rightarrow> string" where
  "String_number n = (if n < 0 then ''-'' @ dec_nat (nat (- n)) else dec_nat (nat n))"

subsection \<open>JSON values and \<^verbatim>\<open>JSON.stringify\<close>\<close>

text \<open>
  A JSON value, as \<^verbatim>\<open>JSON.parse\<close> and \<^verbatim>\<open>res.json()\<close> produce it and as the handlers build it.
  An object is the list of its properties in enumeration order. \<^verbatim>\<open>undefined\<close> is not a JSON
  value: where the program can hold \<^verbatim>\<open>undefined\<close> the model has an option type.
\<close>

datatype json =
    JNull
  | JBool bool
  | JNum int
  | JStr string
  | JArr "json list"
  | JObj "(string \<times> json) list"

text \<open>\<^verbatim>\<open>QuoteJSONString\<close> of ECMA-262.\<close>

definition quote_char :: "char \<Rightarrow> string" where
  "quote_char c =
     (if c = CHR 0x08 then [CHR 0x5C, CHR ''b'']
      else if c = CHR 0x09 then [CHR 0x5C, CHR ''t'']
      else if c = CHR 0x0A then [CHR 0x5C, CHR ''n'']
      else if c = CHR 0x0C then [CHR 0x5C, CHR ''f'']
      else if c = CHR 0x0D then [CHR 0x5C, CHR ''r'']
      else if c = CHR 0x22 then [CHR 0x5C, CHR 0x22]
      else if c = CHR 0x5C then [CHR 0x5C, CHR 0x5C]
      else if (of_char c :: nat) < 32
        then [CHR 0x5C, CHR ''u'', CHR ''0'', CHR ''0'',
              ''0123456789abcdef'' ! ((of_char c :: nat) div 16),
              ''0123456789abcdef'' ! ((of_char c :: nat) mod 16)]
      else [c])"

definition QuoteJSONString :: "string \<Rightarrow> string" where
  "QuoteJSONString s = CHR 0x22 # concat (map quote_char s) @ [CHR 0x22]"

fun join :: "string \<Rightarrow> string list \<Rightarrow> string" where
  "join sep [] = []"
| "join sep [x] = x"
| "join sep (x # y # ys) = x @ sep @ join sep (y # ys)"

text \<open>
  \<^verbatim>\<open>SerializeJSONArray\<close> and \<^verbatim>\<open>SerializeJSONObject\<close>: \<open>gap\<close> is the number of spaces of the
  third argument of \<^verbatim>\<open>JSON.stringify\<close> (0 when it is absent), \<open>ind\<close> the current indentation.
\<close>

definition wrap :: "nat \<Rightarrow> nat \<Rightarrow> string \<Rightarrow> string \<Rightarrow> string list \<Rightarrow> string" where
  "wrap gap ind opening closing partial =
     (if gap = 0 then opening @ join '','' partial @ closing
      else opening @ [CHR 0x0A] @ replicate (ind + gap) CHR '' ''
           @ join ('','' @ [CHR 0x0A] @ replicate (ind + gap) CHR '' '') partial
           @ [CHR 0x0A] @ replicate ind CHR '' '' @ closing)"

fun serialize :: "nat \<Rightarrow> nat \<Rightarrow> json \<Rightarrow> string" where
  "serialize gap ind JNull = ''null''"
| "serialize gap ind (JBool b) = (if b then ''true'' else ''false'')"
| "serialize gap ind (JNum n) = String_number n"
| "serialize gap ind (JStr s) = QuoteJSONString s"
| "serialize gap ind (JArr xs) =
     (if xs = [] then ''[]''
      else wrap gap ind ''['' '']'' (map (serialize gap (ind + gap)) xs))"
| "serialize gap ind (JObj kvs) =
     (if kvs = [] then ''{}''
      else wrap gap ind ''{'' ''}''
             (map (\<lambda>(k, v). QuoteJSONString k @ (if gap = 0 then '':'' else '': '')
                                @ serialize gap (ind + gap) v) kvs))"

text \<open>
  \<^verbatim>\<open>JSON.stringify(value, null, gap)\<close>. For \<^verbatim>\<open>undefined\<close> the result is \<^verbatim>\<open>undefined\<close>, not
  a string.
\<close>

definition JSON_stringify :: "json option \<Rightarrow> nat \<Rightarrow> string option" where
  "JSON_stringify value gap = (case value of None \<Rightarrow> None | Some j \<Rightarrow> Some (serialize gap 0 j))"

text \<open>
  Property access \<^verbatim>\<open>v.k\<close> for the keys the program reads (\<^verbatim>\<open>message\<close>, \<^verbatim>\<open>error\<close>,
  \<^verbatim>\<open>data\<close>): an object yields its property or \<^verbatim>\<open>undefined\<close>; arrays, strings, numbers
  and booleans have no such property; on \<^verbatim>\<open>null\<close> the access throws a \<^verbatim>\<open>TypeError\<close>,
  unless it is the optional chaining \<^verbatim>\<open>v?.k\<close>, which yields \<^verbatim>\<open>undefined\<close>.
\<close>

definition property :: "json \<Rightarrow> string \<Rightarrow> json option" where
  "property v k = (case v of JObj kvs \<Rightarrow> map_of kvs k | _ \<Rightarrow> None)"

definition optional_property :: "json option \<Rightarrow> string \<Rightarrow> json option" where
  "optional_property v k =
     (case v of None \<Rightarrow> None | Some JNull \<Rightarrow> None | Some j \<Rightarrow> property j k)"

text \<open>The truthiness of a JSON value (\<^verbatim>\<open>body ? ... : ...\<close>).\<close>

definition truthy :: "json \<Rightarrow> bool" where
  "truthy v =
     (case v of JNull \<Rightarrow> False | JBool b \<Rightarrow> b | JNum n \<Rightarrow> n \<noteq> 0 | JStr s \<Rightarrow> s \<noteq> []
      | _ \<Rightarrow> True)"

section \<open>Configuration, platform and errors\<close>

text \<open>
  A thrown value. Everything thrown here is an \<^verbatim>\<open>Error\<close> object (created by \<^verbatim>\<open>new Error\<close>,
  or the \<^verbatim>\<open>TypeError\<close>, \<^verbatim>\<open>SyntaxError\<close> or \<^verbatim>\<open>AbortError\<close> of the platform), so it has a
  name and a string message, and \<^verbatim>\<open>error?.message ?? String(error)\<close> is its message.
\<close>

record js_error =
  error_name :: string
  error_message :: string

definition Error :: "string \<Rightarrow> js_error" where
  "Error msg = \<lparr>error_name = ''Error'', error_message = msg\<rparr>"

text \<open>
  \<^verbatim>\<open>quoFetch\<close> arms a timer that aborts the request
  (\<^verbatim>\<open>setTimeout(() => controller.abort(), HTTP_TIMEOUT_MS)\<close>) and clears it in its
  \<^verbatim>\<open>finally\<close> block. A response is what \<^verbatim>\<open>await fetch(...)\<close> yields once the status line
  and headers are there; its body is read later, by \<^verbatim>\<open>res.text()\<close> or \<^verbatim>\<open>res.json()\<close>.
  \<open>read_body res t\<close> is what reading the body settles with when the timer is in state \<open>t\<close>
  during the read: the text, or the error the read rejects with.
\<close>

datatype timer = Armed | Cleared

record response =
  status :: nat
  statusText :: string
  read_body :: "timer \<Rightarrow> js_error + string"

record request =
  req_url :: string
  req_query :: "(string \<times> string) list"
  req_method :: string
  req_headers :: "(string \<times> string) list"
  req_body :: "string option"

text \<open>
  The module-level constants \<^verbatim>\<open>API_KEY\<close> and \<^verbatim>\<open>HTTP_TIMEOUT_MS\<close> (the process exits at
  start unless the key is non-empty and the timeout is at least 1000), and the platform:
  \<^verbatim>\<open>JSON.parse\<close> (\<open>Inl\<close> is the message of the \<^verbatim>\<open>SyntaxError\<close> it throws) and \<^verbatim>\<open>fetch\<close>
  (\<open>Inl\<close> is the error the promise rejects with while the timer is armed).
\<close>

record env =
  API_KEY :: string
  HTTP_TIMEOUT_MS :: nat
  JSON_parse :: "string \<Rightarrow> string + json"
  fetch :: "request \<Rightarrow> js_error + response"

definition BASE_URL :: string where
  "BASE_URL = ''https://api.openphone.com/v1''"

section \<open>The Secret Redactor\<close>

text \<open>
  \<^verbatim>\<open>
  function redactSecrets(value) {
    if (value === undefined || value === null) return value;
    let text;
    try {
      text = typeof value === "string" ? value : JSON.stringify(value);
    } catch {
      text = String(value);
    }
    return text
      .replace(API_KEY, "***REDACTED_API_KEY***")
      .replace(/(Authorization["']?\s*:\s*["']?)[^"',\s}]+/gi, "$1***REDACTED***");
  }\<close>
  The argument is \<^verbatim>\<open>undefined\<close>, \<^verbatim>\<open>null\<close>, a string or a JSON value; \<^verbatim>\<open>JSON.stringify\<close>
  does not throw on a JSON value, so the \<^verbatim>\<open>catch\<close> branch is not taken.
\<close>

datatype js_value = JS_undefined | JS_null | JS_string string | JS_json json

datatype redacted = R_undefined | R_null | R_string string

definition redact_text :: "env \<Rightarrow> string \<Rightarrow> string" where
  "redact_text env text =
     replace_authorization (replace_first text (API_KEY env) ''***REDACTED_API_KEY***'')"

definition redactSecrets :: "env \<Rightarrow> js_value \<Rightarrow> redacted" where
  "redactSecrets env v =
     (case v of
        JS_undefined \<Rightarrow> R_undefined
      | JS_null \<Rightarrow> R_null
      | JS_string s \<Rightarrow> R_string (redact_text env s)
      | JS_json j \<Rightarrow> R_string (redact_text env (serialize 0 0 j)))"

text \<open>
  A redacted value inside a template literal, and as the argument of \<^verbatim>\<open>new Error\<close>
  (whose message is \<^verbatim>\<open>""\<close> for \<^verbatim>\<open>undefined\<close>).
\<close>

definition template :: "redacted \<Rightarrow> string" where
  "template r = (case r of R_undefined \<Rightarrow> ''undefined'' | R_null \<Rightarrow> ''null'' | R_string s \<Rightarrow> s)"

definition new_Error :: "redacted \<Rightarrow> js_error" where
  "new_Error r = Error (case r of R_undefined \<Rightarrow> [] | R_null \<Rightarrow> ''null'' | R_string s \<Rightarrow> s)"

section \<open>The HTTP Gateway\<close>

text \<open>
  \<^verbatim>\<open>
  function extractErrorMessage(rawBody) {
    if (!rawBody) return "No response body";
    try {
      const parsed = JSON.parse(rawBody);
      if (typeof parsed?.message === "string" && parsed.message.trim()) return parsed.message;
      if (typeof parsed?.error?.message === "string" && parsed.error.message.trim())
        return parsed.error.message;
      if (typeof parsed?.error === "string" && parsed.error.trim()) return parsed.error;
      return rawBody;
    } catch {
      return rawBody;
    }
  }\<close>
  \<open>nonblank_string v\<close> is the test \<^verbatim>\<open>typeof v === "string" && v.trim()\<close>, with the string.
\<close>

definition nonblank_string :: "json option \<Rightarrow> string option" where
  "nonblank_string v =
     (case v of Some (JStr s) \<Rightarrow> if trim s \<noteq> [] then Some s else None | _ \<Rightarrow> None)"

definition extractErrorMessage :: "env \<Rightarrow> string \<Rightarrow> string" where
  "extractErrorMessage env rawBody =
     (if rawBody = [] then ''No response body''
      else
        case JSON_parse env rawBody of
          Inl syntax_error \<Rightarrow> rawBody
        | Inr parsed \<Rightarrow>
            (case nonblank_string (optional_property (Some parsed) ''message'') of
               Some m \<Rightarrow> m
             | None \<Rightarrow>
                 (case nonblank_string
                         (optional_property (optional_property (Some parsed) ''error'') ''message'') of
                    Some m \<Rightarrow> m
                  | None \<Rightarrow>
                      (case nonblank_string (optional_property (Some parsed) ''error'') of
                         Some m \<Rightarrow> m
                       | None \<Rightarrow> rawBody))))"

text \<open>
  \<^verbatim>\<open>
  function jsonToolResponse(payload, isError = false) {
    return {
      content: [{ type: "text", text: JSON.stringify(payload, null, 2) }],
      ...(isError ? { isError: true } : {}),
    };
  }\<close>
  In a result \<open>isError\<close> is \<open>True\<close> when the property \<^verbatim>\<open>isError: true\<close> is there, and the
  text of a block is \<open>None\<close> when it is \<^verbatim>\<open>undefined\<close>.
\<close>

record content_block =
  block_type :: string
  block_text :: "string option"

record tool_result =
  content :: "content_block list"
  isError :: bool

definition text_block :: "string option \<Rightarrow> content_block" where
  "text_block t = \<lparr>block_type = ''text'', block_text = t\<rparr>"

definition jsonToolResponse :: "json \<Rightarrow> bool \<Rightarrow> tool_result" where
  "jsonToolResponse payload is_error =
     \<lparr>content = [text_block (JSON_stringify (Some payload) 2)], isError = is_error\<rparr>"

text \<open>
  The values of the \<^verbatim>\<open>params\<close> object of \<^verbatim>\<open>quoFetch\<close>: what the handlers put there is
  \<^verbatim>\<open>undefined\<close>, a string, a number, a boolean or an array of strings. \<open>String_param\<close> is
  \<^verbatim>\<open>String(v)\<close>.
\<close>

datatype param =
    P_undefined
  | P_null
  | P_string string
  | P_number int
  | P_boolean bool
  | P_array "string list"

definition String_param :: "param \<Rightarrow> string" where
  "String_param v =
     (case v of
        P_undefined \<Rightarrow> ''undefined''
      | P_null \<Rightarrow> ''null''
      | P_string s \<Rightarrow> s
      | P_number n \<Rightarrow> String_number n
      | P_boolean b \<Rightarrow> (if b then ''true'' else ''false'')
      | P_array items \<Rightarrow> join '','' items)"

text \<open>
  \<^verbatim>\<open>URLSearchParams\<close>: the query of the URL is a list of name-value pairs.
  \<^verbatim>\<open>append\<close> adds a pair at the end; \<^verbatim>\<open>set\<close> gives the first pair of that name the new value
  and removes the other pairs of that name, or appends the pair when there is none.
\<close>

definition searchParams_append ::
  "(string \<times> string) list \<Rightarrow> string \<Rightarrow> string \<Rightarrow> (string \<times> string) list" where
  "searchParams_append q k v = q @ [(k, v)]"

fun set_first :: "(string \<times> string) list \<Rightarrow> string \<Rightarrow> string \<Rightarrow> (string \<times> string) list" where
  "set_first [] k v = []"
| "set_first (e # q) k v =
     (if fst e = k then (k, v) # filter (\<lambda>e'. fst e' \<noteq> k) q else e # set_first q k v)"

definition searchParams_set ::
  "(string \<times> string) list \<Rightarrow> string \<Rightarrow> string \<Rightarrow> (string \<times> string) list" where
  "searchParams_set q k v = (if k \<in> fst ` set q then set_first q k v else q @ [(k, v)])"

text \<open>
  \<^verbatim>\<open>
  async function quoFetch(path, { method = "GET", body, params } = {}) {
    const url = new URL(`${BASE_URL}${path}`);
    if (params) {
      for (const [k, v] of Object.entries(params)) {
        if (v !== undefined && v !== null) {
          if (Array.isArray(v)) {
            v.forEach((item) => url.searchParams.append(k, item));
          } else {
            url.searchParams.set(k, String(v));
          }
        }
      }
    }\<close>
  \<open>add_param\<close> is one turn of the loop, \<open>build_query\<close> the loop over
  \<^verbatim>\<open>Object.entries(params)\<close>. The paths given by the handlers that pass \<^verbatim>\<open>params\<close> are
  literals without a query, so the loop starts from the empty list.
\<close>

definition add_param :: "(string \<times> string) list \<Rightarrow> string \<times> param \<Rightarrow> (string \<times> string) list" where
  "add_param q e =
     (case snd e of
        P_undefined \<Rightarrow> q
      | P_null \<Rightarrow> q
      | P_array items \<Rightarrow> foldl (\<lambda>q' item. searchParams_append q' (fst e) item) q items
      | v \<Rightarrow> searchParams_set q (fst e) (String_param v))"

definition build_query :: "(string \<times> param) list \<Rightarrow> (string \<times> string) list" where
  "build_query params = foldl add_param [] params"

record fetch_options =
  opt_method :: string
  opt_body :: "json option"
  opt_params :: "(string \<times> param) list option"

definition no_options :: fetch_options where
  "no_options = \<lparr>opt_method = ''GET'', opt_body = None, opt_params = None\<rparr>"

text \<open>
  \<^verbatim>\<open>
    const controller = new AbortController();
    const timeoutHandle = setTimeout(() => controller.abort(), HTTP_TIMEOUT_MS);

    try {
      const res = await fetch(url.toString(), {
        method,
        headers: {
          Authorization: API_KEY,
          "Content-Type": "application/json",
        },
        ...(body ? { body: JSON.stringify(body) } : {}),
        signal: controller.signal,
      });

      if (!res.ok) {
        const text = await res.text();
        const detail = redactSecrets(extractErrorMessage(text));
        throw new Error(`Quo API ${res.status} ${res.statusText}: ${detail}`);
      }

      if (res.status === 204) return { success: true };
      return res.json();
    } catch (error) {
      if (error?.name === "AbortError") {
        throw new Error(`Quo API request timed out after ${HTTP_TIMEOUT_MS}ms`);
      }
      throw new Error(redactSecrets(error?.message ?? String(error)));
    } finally {
      clearTimeout(timeoutHandle);
    }
  }\<close>
  \<^item> \<^verbatim>\<open>await fetch(...)\<close> and \<^verbatim>\<open>await res.text()\<close> run inside \<^verbatim>\<open>try\<close> with the timer armed;
    what they throw, and the \<^verbatim>\<open>Error\<close> thrown for a status that is not ok, goes through the
    \<^verbatim>\<open>catch\<close> block.
  \<^item> \<^verbatim>\<open>return res.json()\<close> has no \<^verbatim>\<open>await\<close>: the \<^verbatim>\<open>finally\<close> block clears the timer as soon
    as the promise is created, the body is read after that, and a rejection of that promise
    is the rejection of \<^verbatim>\<open>quoFetch\<close> itself, not seen by the \<^verbatim>\<open>catch\<close> block.
  The model returns the request that was sent together with the outcome. In a request,
  \<open>req_url\<close> is the string given to \<^verbatim>\<open>new URL\<close> (the URL parser's normalisation of the path
  is not modelled) and \<open>req_query\<close> is the list of pairs of \<^verbatim>\<open>url.searchParams\<close>, before it
  is percent-encoded into the URL.
\<close>

definition res_ok :: "response \<Rightarrow> bool" where
  "res_ok res = (200 \<le> status res \<and> status res \<le> 299)"

definition res_text :: "response \<Rightarrow> timer \<Rightarrow> js_error + string" where
  "res_text res t = read_body res t"

definition res_json :: "env \<Rightarrow> response \<Rightarrow> timer \<Rightarrow> js_error + json" where
  "res_json env res t =
     (case read_body res t of
        Inl error \<Rightarrow> Inl error
      | Inr text \<Rightarrow>
          (case JSON_parse env text of
             Inl msg \<Rightarrow> Inl \<lparr>error_name = ''SyntaxError'', error_message = msg\<rparr>
           | Inr j \<Rightarrow> Inr j))"

definition timeout_message :: "env \<Rightarrow> string" where
  "timeout_message env = ''Quo API request timed out after '' @ dec_nat (HTTP_TIMEOUT_MS env) @ ''ms''"

definition catch_block :: "env \<Rightarrow> js_error \<Rightarrow> js_error" where
  "catch_block env error =
     (if error_name error = ''AbortError'' then Error (timeout_message env)
      else new_Error (redactSecrets env (JS_string (error_message error))))"

definition build_request :: "env \<Rightarrow> string \<Rightarrow> fetch_options \<Rightarrow> request" where
  "build_request env path opts =
     \<lparr>req_url = BASE_URL @ path,
      req_query = (case opt_params opts of None \<Rightarrow> [] | Some params \<Rightarrow> build_query params),
      req_method = opt_method opts,
      req_headers = [(''Authorization'', API_KEY env), (''Content-Type'', ''application/json'')],
      req_body =
        (case opt_body opts of
           None \<Rightarrow> None
         | Some b \<Rightarrow> if truthy b then Some (serialize 0 0 b) else None)\<rparr>"

definition http_error :: "env \<Rightarrow> response \<Rightarrow> string \<Rightarrow> js_error" where
  "http_error env res text =
     Error (''Quo API '' @ dec_nat (status res) @ '' '' @ statusText res @ '': ''
            @ template (redactSecrets env (JS_string (extractErrorMessage env text))))"

definition settle :: "env \<Rightarrow> js_error + response \<Rightarrow> js_error + json" where
  "settle env fetched =
     (case fetched of
        Inl error \<Rightarrow> Inl (catch_block env error)
      | Inr res \<Rightarrow>
          if \<not> res_ok res then
            (case res_text res Armed of
               Inl error \<Rightarrow> Inl (catch_block env error)
             | Inr text \<Rightarrow> Inl (catch_block env (http_error env res text)))
          else if status res = 204 then Inr (JObj [(''success'', JBool True)])
          else res_json env res Cleared)"

definition quoFetch :: "env \<Rightarrow> string \<Rightarrow> fetch_options \<Rightarrow> request \<times> (js_error + json)" where
  "quoFetch env path opts =
     (let req = build_request env path opts in (req, settle env (fetch env req)))"

section \<open>The tools\<close>

text \<open>
  A tool call is the name of the tool with the parameters the handler receives, each with
  the type its schema declares: \<^verbatim>\<open>z.string()\<close> is a \<^typ>\<open>string\<close>, an \<^verbatim>\<open>.optional()\<close>
  parameter an option (\<open>None\<close> is \<^verbatim>\<open>undefined\<close>), \<^verbatim>\<open>z.array(z.string())\<close> a list of strings,
  \<^verbatim>\<open>z.number()\<close> an \<^typ>\<open>int\<close>, and an entry \<^verbatim>\<open>{name, value, id?}\<close> of
  \<^verbatim>\<open>phoneNumbers\<close> or \<^verbatim>\<open>emails\<close> a record. The parameters come in the order of the handler's
  destructuring pattern.
\<close>

record contact_entry =
  entry_name :: string
  entry_value :: string
  entry_id :: "string option"

datatype tool_call =
    send_text string string string "string option"
  | list_messages string "string list" "int option" "string option" "string option"
      "string option"
  | get_message string
  | list_conversations "string list option" "string option" "string option" "string option"
      "string option" "string option" "bool option" "int option" "string option"
  | create_contact string "string option" "string option" "string option"
      "contact_entry list option" "contact_entry list option"
  | list_contacts "int option" "string option" "string list option"
  | get_contact string
  | update_contact string "string option" "string option" "string option" "string option"
      "contact_entry list option" "contact_entry list option"
  | delete_contact string
  | list_calls string "string list" "int option" "string option" "string option" "string option"
  | get_call string
  | get_call_recordings string
  | get_call_summary string
  | get_call_transcription string
  | get_voicemail string
  | list_phone_numbers "string option"
  | get_phone_number string
  | list_users
  | get_user string
  | get_contact_custom_fields
  | list_webhooks

text \<open>The parameter names each tool declares in the schema it gives to \<^verbatim>\<open>server.tool\<close>.\<close>

definition tool_parameters :: "(string \<times> string list) list" where
  "tool_parameters =
     [(''send_text'', [''from'', ''to'', ''content'', ''setInboxStatus'']),
      (''list_messages'', [''phoneNumberId'', ''participants'', ''maxResults'', ''createdAfter'',
          ''createdBefore'', ''pageToken'']),
      (''get_message'', [''id'']),
      (''list_conversations'', [''phoneNumbers'', ''userId'', ''createdAfter'', ''createdBefore'',
          ''updatedAfter'', ''updatedBefore'', ''excludeInactive'', ''maxResults'', ''pageToken'']),
      (''create_contact'', [''firstName'', ''lastName'', ''company'', ''role'', ''phoneNumbers'',
          ''emails'']),
      (''list_contacts'', [''maxResults'', ''pageToken'', ''externalIds'']),
      (''get_contact'', [''id'']),
      (''update_contact'', [''id'', ''firstName'', ''lastName'', ''company'', ''role'',
          ''phoneNumbers'', ''emails'']),
      (''delete_contact'', [''id'']),
      (''list_calls'', [''phoneNumberId'', ''participants'', ''maxResults'', ''createdAfter'',
          ''createdBefore'', ''pageToken'']),
      (''get_call'', [''callId'']),
      (''get_call_recordings'', [''callId'']),
      (''get_call_summary'', [''callId'']),
      (''get_call_transcription'', [''callId'']),
      (''get_voicemail'', [''callId'']),
      (''list_phone_numbers'', [''userId'']),
      (''get_phone_number'', [''phoneNumberId'']),
      (''list_users'', []),
      (''get_user'', [''userId'']),
      (''get_contact_custom_fields'', []),
      (''list_webhooks'', [])]"

definition declares :: "string \<Rightarrow> string \<Rightarrow> bool" where
  "declares tool p = (case map_of tool_parameters tool of None \<Rightarrow> False | Some ps \<Rightarrow> p \<in> set ps)"

fun tool_name :: "tool_call \<Rightarrow> string" where
  "tool_name (send_text from to' content' setInboxStatus) = ''send_text''"
| "tool_name (list_messages phoneNumberId participants maxResults createdAfter createdBefore
     pageToken) = ''list_messages''"
| "tool_name (get_message id') = ''get_message''"
| "tool_name (list_conversations phoneNumbers userId createdAfter createdBefore updatedAfter
     updatedBefore excludeInactive maxResults pageToken) = ''list_conversations''"
| "tool_name (create_contact firstName lastName company role phoneNumbers emails) =
     ''create_contact''"
| "tool_name (list_contacts maxResults pageToken externalIds) = ''list_contacts''"
| "tool_name (get_contact id') = ''get_contact''"
| "tool_name (update_contact id' firstName lastName company role phoneNumbers emails) =
     ''update_contact''"
| "tool_name (delete_contact id') = ''delete_contact''"
| "tool_name (list_calls phoneNumberId participants maxResults createdAfter createdBefore
     pageToken) = ''list_calls''"
| "tool_name (get_call callId) = ''get_call''"
| "tool_name (get_call_recordings callId) = ''get_call_recordings''"
| "tool_name (get_call_summary callId) = ''get_call_summary''"
| "tool_name (get_call_transcription callId) = ''get_call_transcription''"
| "tool_name (get_voicemail callId) = ''get_voicemail''"
| "tool_name (list_phone_numbers userId) = ''list_phone_numbers''"
| "tool_name (get_phone_number phoneNumberId) = ''get_phone_number''"
| "tool_name list_users = ''list_users''"
| "tool_name (get_user userId) = ''get_user''"
| "tool_name get_contact_custom_fields = ''get_contact_custom_fields''"
| "tool_name list_webhooks = ''list_webhooks''"

text \<open>An optional parameter as a value of \<^verbatim>\<open>params\<close>, and the objects the handlers build.\<close>

definition string_param :: "string option \<Rightarrow> param" where
  "string_param v = (case v of None \<Rightarrow> P_undefined | Some s \<Rightarrow> P_string s)"

definition number_param :: "int option \<Rightarrow> param" where
  "number_param v = (case v of None \<Rightarrow> P_undefined | Some n \<Rightarrow> P_number n)"

definition boolean_param :: "bool option \<Rightarrow> param" where
  "boolean_param v = (case v of None \<Rightarrow> P_undefined | Some b \<Rightarrow> P_boolean b)"

definition array_param :: "string list option \<Rightarrow> param" where
  "array_param v = (case v of None \<Rightarrow> P_undefined | Some items \<Rightarrow> P_array items)"

definition entry_json :: "contact_entry \<Rightarrow> json" where
  "entry_json e =
     JObj ([(''name'', JStr (entry_name e)), (''value'', JStr (entry_value e))]
           @ (case entry_id e of None \<Rightarrow> [] | Some i \<Rightarrow> [(''id'', JStr i)]))"

text \<open>\<^verbatim>\<open>...(v ? { k: v } : {})\<close> for a string (the empty string is falsy) and for an array.\<close>

definition if_truthy_string :: "string \<Rightarrow> string option \<Rightarrow> (string \<times> json) list" where
  "if_truthy_string k v =
     (case v of None \<Rightarrow> [] | Some s \<Rightarrow> if s = [] then [] else [(k, JStr s)])"

definition if_truthy_entries :: "string \<Rightarrow> contact_entry list option \<Rightarrow> (string \<times> json) list" where
  "if_truthy_entries k v =
     (case v of None \<Rightarrow> [] | Some es \<Rightarrow> [(k, JArr (map entry_json es))])"

text \<open>\<^verbatim>\<open>if (v !== undefined) defaultFields.k = v\<close>.\<close>

definition if_defined_string :: "string \<Rightarrow> string option \<Rightarrow> (string \<times> json) list" where
  "if_defined_string k v = (case v of None \<Rightarrow> [] | Some s \<Rightarrow> [(k, JStr s)])"

definition if_defined_entries :: "string \<Rightarrow> contact_entry list option \<Rightarrow> (string \<times> json) list" where
  "if_defined_entries k v =
     (case v of None \<Rightarrow> [] | Some es \<Rightarrow> [(k, JArr (map entry_json es))])"

text \<open>
  The two ways a handler shapes the value \<^verbatim>\<open>result\<close> that \<^verbatim>\<open>quoFetch\<close> returned:
  \<^verbatim>\<open>{ content: [{ type: "text", text: JSON.stringify(result.data, null, 2) }] }\<close>, where
  reading \<^verbatim>\<open>result.data\<close> throws a \<^verbatim>\<open>TypeError\<close> when \<^verbatim>\<open>result\<close> is \<^verbatim>\<open>null\<close>, and
  \<^verbatim>\<open>{ content: [{ type: "text", text: JSON.stringify(result, null, 2) }] }\<close>.
\<close>

definition null_data_error :: js_error where
  "null_data_error =
     \<lparr>error_name = ''TypeError'',
      error_message = ''Cannot read properties of null (reading '' @ [CHR 0x27] @ ''data''
                      @ [CHR 0x27] @ '')''\<rparr>"

definition data_result :: "json \<Rightarrow> js_error + tool_result" where
  "data_result result =
     (case result of
        JNull \<Rightarrow> Inl null_data_error
      | _ \<Rightarrow> Inr \<lparr>content = [text_block (JSON_stringify (property result ''data'') 2)],
                  isError = False\<rparr>)"

definition envelope_result :: "json \<Rightarrow> js_error + tool_result" where
  "envelope_result result =
     Inr \<lparr>content = [text_block (JSON_stringify (Some result) 2)], isError = False\<rparr>"

text \<open>
  \<^verbatim>\<open>const result = await quoFetch(path, opts); return shape(result)\<close>: the handler fails with
  the error of \<^verbatim>\<open>quoFetch\<close>, or shapes its value. The outcome of a handler is the list of
  requests it sent and the result it returns (\<open>Inr\<close>) or the error it throws (\<open>Inl\<close>).
\<close>

definition await_quoFetch ::
  "env \<Rightarrow> string \<Rightarrow> fetch_options \<Rightarrow> (json \<Rightarrow> js_error + tool_result)
     \<Rightarrow> request list \<times> (js_error + tool_result)" where
  "await_quoFetch env path opts shape =
     (case quoFetch env path opts of
        (req, Inl error) \<Rightarrow> ([req], Inl error)
      | (req, Inr result) \<Rightarrow> ([req], shape result))"

definition no_fields_payload :: json where
  "no_fields_payload =
     JObj [(''error'',
        JObj [(''message'', JStr ''No fields provided for update_contact''),
              (''details'', JStr ''Pass at least one of: firstName, lastName, company, role, phoneNumbers, emails.'')])]"

text \<open>
  The handlers, in the order of \<^verbatim>\<open>server.mjs\<close>. \<^verbatim>\<open>update_contact\<close> returns
  \<^verbatim>\<open>jsonToolResponse({error: {...}}, true)\<close> before any call of \<^verbatim>\<open>quoFetch\<close> when
  \<^verbatim>\<open>Object.keys(defaultFields).length === 0\<close>; \<^verbatim>\<open>delete_contact\<close> ignores the value of
  \<^verbatim>\<open>quoFetch\<close>; \<^verbatim>\<open>list_phone_numbers\<close> passes \<^verbatim>\<open>userId ? { userId } : {}\<close>.
\<close>

primrec handler :: "env \<Rightarrow> tool_call \<Rightarrow> request list \<times> (js_error + tool_result)" where
  "handler env (send_text from to' content' setInboxStatus) =
     await_quoFetch env ''/messages''
       \<lparr>opt_method = ''POST'',
        opt_body = Some (JObj ([(''from'', JStr from), (''to'', JArr [JStr to']),
                                (''content'', JStr content')]
                               @ if_truthy_string ''setInboxStatus'' setInboxStatus)),
        opt_params = None\<rparr>
       data_result"
| "handler env (list_messages phoneNumberId participants maxResults createdAfter createdBefore
     pageToken) =
     await_quoFetch env ''/messages''
       \<lparr>opt_method = ''GET'', opt_body = None,
        opt_params = Some [(''phoneNumberId'', P_string phoneNumberId),
                           (''participants'', P_array participants),
                           (''maxResults'', number_param maxResults),
                           (''createdAfter'', string_param createdAfter),
                           (''createdBefore'', string_param createdBefore),
                           (''pageToken'', string_param pageToken)]\<rparr>
       envelope_result"
| "handler env (get_message id') = await_quoFetch env (''/messages/'' @ id') no_options data_result"
| "handler env (list_conversations phoneNumbers userId createdAfter createdBefore updatedAfter
     updatedBefore excludeInactive maxResults pageToken) =
     await_quoFetch env ''/conversations''
       \<lparr>opt_method = ''GET'', opt_body = None,
        opt_params = Some [(''phoneNumbers'', array_param phoneNumbers),
                           (''userId'', string_param userId),
                           (''createdAfter'', string_param createdAfter),
                           (''createdBefore'', string_param createdBefore),
                           (''updatedAfter'', string_param updatedAfter),
                           (''updatedBefore'', string_param updatedBefore),
                           (''excludeInactive'', boolean_param excludeInactive),
                           (''maxResults'', number_param maxResults),
                           (''pageToken'', string_param pageToken)]\<rparr>
       envelope_result"
| "handler env (create_contact firstName lastName company role phoneNumbers emails) =
     await_quoFetch env ''/contacts''
       \<lparr>opt_method = ''POST'',
        opt_body = Some (JObj [(''defaultFields'',
                     JObj ([(''firstName'', JStr firstName)]
                           @ if_truthy_string ''lastName'' lastName
                           @ if_truthy_string ''company'' company
                           @ if_truthy_string ''role'' role
                           @ if_truthy_entries ''phoneNumbers'' phoneNumbers
                           @ if_truthy_entries ''emails'' emails))]),
        opt_params = None\<rparr>
       data_result"
| "handler env (list_contacts maxResults pageToken externalIds) =
     await_quoFetch env ''/contacts''
       \<lparr>opt_method = ''GET'', opt_body = None,
        opt_params = Some [(''maxResults'', number_param maxResults),
                           (''pageToken'', string_param pageToken),
                           (''externalIds'', array_param externalIds)]\<rparr>
       envelope_result"
| "handler env (get_contact id') = await_quoFetch env (''/contacts/'' @ id') no_options data_result"
| "handler env (update_contact id' firstName lastName company role phoneNumbers emails) =
     (let defaultFields =
            if_defined_string ''firstName'' firstName
            @ if_defined_string ''lastName'' lastName
            @ if_defined_string ''company'' company
            @ if_defined_string ''role'' role
            @ if_defined_entries ''phoneNumbers'' phoneNumbers
            @ if_defined_entries ''emails'' emails
      in if length defaultFields = 0 then ([], Inr (jsonToolResponse no_fields_payload True))
         else await_quoFetch env (''/contacts/'' @ id')
                \<lparr>opt_method = ''PATCH'',
                 opt_body = Some (JObj [(''defaultFields'', JObj defaultFields)]),
                 opt_params = None\<rparr>
                data_result)"
| "handler env (delete_contact id') =
     await_quoFetch env (''/contacts/'' @ id')
       \<lparr>opt_method = ''DELETE'', opt_body = None, opt_params = None\<rparr>
       (\<lambda>result. Inr \<lparr>content = [text_block (Some (''Contact '' @ id' @ '' deleted.''))],
                         isError = False\<rparr>)"
| "handler env (list_calls phoneNumberId participants maxResults createdAfter createdBefore
     pageToken) =
     await_quoFetch env ''/calls''
       \<lparr>opt_method = ''GET'', opt_body = None,
        opt_params = Some [(''phoneNumberId'', P_string phoneNumberId),
                           (''participants'', P_array participants),
                           (''maxResults'', number_param maxResults),
                           (''createdAfter'', string_param createdAfter),
                           (''createdBefore'', string_param createdBefore),
                           (''pageToken'', string_param pageToken)]\<rparr>
       envelope_result"
| "handler env (get_call callId) = await_quoFetch env (''/calls/'' @ callId) no_options data_result"
| "handler env (get_call_recordings callId) =
     await_quoFetch env (''/call-recordings/'' @ callId) no_options data_result"
| "handler env (get_call_summary callId) =
     await_quoFetch env (''/call-summaries/'' @ callId) no_options data_result"
| "handler env (get_call_transcription callId) =
     await_quoFetch env (''/call-transcripts/'' @ callId) no_options data_result"
| "handler env (get_voicemail callId) =
     await_quoFetch env (''/call-voicemails/'' @ callId) no_options data_result"
| "handler env (list_phone_numbers userId) =
     await_quoFetch env ''/phone-numbers''
       \<lparr>opt_method = ''GET'', opt_body = None,
        opt_params = Some (case userId of
                             None \<Rightarrow> []
                           | Some u \<Rightarrow> if u = [] then [] else [(''userId'', P_string u)])\<rparr>
       data_result"
| "handler env (get_phone_number phoneNumberId) =
     await_quoFetch env (''/phone-numbers/'' @ phoneNumberId) no_options data_result"
| "handler env list_users = await_quoFetch env ''/users'' no_options data_result"
| "handler env (get_user userId) = await_quoFetch env (''/users/'' @ userId) no_options data_result"
| "handler env get_contact_custom_fields =
     await_quoFetch env ''/contact-custom-fields'' no_options data_result"
| "handler env list_webhooks = await_quoFetch env ''/webhooks'' no_options data_result"

section \<open>Validation and dispatch\<close>

text \<open>
  The sources hold the schema declarations and the handlers. The library that interprets
  a schema (\<^verbatim>\<open>zod\<close>) and the one that validates the parameters, calls the handler and turns
  a thrown error into a result (\<^verbatim>\<open>McpServer\<close>) are not among them; they are modelled from
  sections 4.3 and 4.4 of the spec.

  The table \<open>maxResults_schema\<close> is from the sources: the declarations
  \<^verbatim>\<open>maxResults: z.number().min(1).max(100).default(20).optional()\<close> of \<^verbatim>\<open>list_messages\<close>,
  \<^verbatim>\<open>list_conversations\<close> and \<^verbatim>\<open>list_calls\<close>, and
  \<^verbatim>\<open>maxResults: z.number().min(1).max(50).default(20).optional()\<close> of \<^verbatim>\<open>list_contacts\<close>.
\<close>

record number_schema =
  schema_min :: int
  schema_max :: int
  schema_default :: int

definition maxResults_schema :: "string \<Rightarrow> number_schema option" where
  "maxResults_schema tool =
     map_of
       [(''list_messages'', \<lparr>schema_min = 1, schema_max = 100, schema_default = 20\<rparr>),
        (''list_conversations'', \<lparr>schema_min = 1, schema_max = 100, schema_default = 20\<rparr>),
        (''list_contacts'', \<lparr>schema_min = 1, schema_max = 50, schema_default = 20\<rparr>),
        (''list_calls'', \<lparr>schema_min = 1, schema_max = 100, schema_default = 20\<rparr>)] tool"

text \<open>
  Modelled from the spec: the validation of a number parameter, done by the library
  \<^verbatim>\<open>zod\<close>, which is not among the sources. Section 4.3: ``page-size parameters bounded
  per-endpoint (e.g., 1--100 for messages/calls/conversations, 1--50 for contacts) with a
  default of 20 when omitted''; on a violation validation fails. (In the library, whether
  the default written before \<^verbatim>\<open>.optional()\<close> is given to an omitted parameter differs between
  its major versions; the sources do not say which one is used, and the model follows the
  spec.)
\<close>

definition validate_number :: "string \<Rightarrow> number_schema \<Rightarrow> int option \<Rightarrow> string + int option" where
  "validate_number p sch v =
     (case v of
        None \<Rightarrow> Inr (Some (schema_default sch))
      | Some n \<Rightarrow>
          if n < schema_min sch then Inl (p @ '': below the minimum'')
          else if schema_max sch < n then Inl (p @ '': above the maximum'')
          else Inr (Some n))"

text \<open>
  Modelled from the spec: the validation of the \<^verbatim>\<open>maxResults\<close> parameter of a tool against
  the schema the tool declares for it.
\<close>

definition validate_maxResults :: "string \<Rightarrow> int option \<Rightarrow> string + int option" where
  "validate_maxResults tool v =
     (case maxResults_schema tool of
        None \<Rightarrow> Inr v
      | Some sch \<Rightarrow> validate_number ''maxResults'' sch v)"

text \<open>
  Modelled from the spec: the validation of a tool call (section 4.3), done by \<^verbatim>\<open>zod\<close> and
  \<^verbatim>\<open>McpServer\<close>, which are not among the sources: the message text has 1 to 1600
  characters, the inbox status is the literal \<^verbatim>\<open>done\<close>, a page size is validated as above.
  The other constraints of the schemas (which parameters are strings, arrays or optional)
  are the types of the parameters of a tool call.
\<close>

definition validate :: "tool_call \<Rightarrow> string + tool_call" where
  "validate call =
     (case call of
        send_text from to' content' setInboxStatus \<Rightarrow>
          if length content' < 1 \<or> 1600 < length content' then Inl ''content: length out of bounds''
          else if setInboxStatus \<noteq> None \<and> setInboxStatus \<noteq> Some ''done''
            then Inl ''setInboxStatus: not an allowed value''
          else Inr call
      | list_messages phoneNumberId participants maxResults createdAfter createdBefore pageToken \<Rightarrow>
          (case validate_maxResults ''list_messages'' maxResults of
             Inl violation \<Rightarrow> Inl violation
           | Inr m \<Rightarrow> Inr (list_messages phoneNumberId participants m createdAfter createdBefore
                             pageToken))
      | list_conversations phoneNumbers userId createdAfter createdBefore updatedAfter
          updatedBefore excludeInactive maxResults pageToken \<Rightarrow>
          (case validate_maxResults ''list_conversations'' maxResults of
             Inl violation \<Rightarrow> Inl violation
           | Inr m \<Rightarrow> Inr (list_conversations phoneNumbers userId createdAfter createdBefore
                             updatedAfter updatedBefore excludeInactive m pageToken))
      | list_contacts maxResults pageToken externalIds \<Rightarrow>
          (case validate_maxResults ''list_contacts'' maxResults of
             Inl violation \<Rightarrow> Inl violation
           | Inr m \<Rightarrow> Inr (list_contacts m pageToken externalIds))
      | list_calls phoneNumberId participants maxResults createdAfter createdBefore pageToken \<Rightarrow>
          (case validate_maxResults ''list_calls'' maxResults of
             Inl violation \<Rightarrow> Inl violation
           | Inr m \<Rightarrow> Inr (list_calls phoneNumberId participants m createdAfter createdBefore
                             pageToken))
      | _ \<Rightarrow> Inr call)"

text \<open>
  Modelled from the spec: the dispatch boundary (section 4.4), which is \<^verbatim>\<open>McpServer\<close> and
  not among the sources. On a validation failure the handler does not run and the result
  has the error flag set and describes the violation; an error thrown by the handler
  becomes a result with the error flag set that carries its message.
\<close>

definition error_result :: "string \<Rightarrow> tool_result" where
  "error_result msg = \<lparr>content = [text_block (Some msg)], isError = True\<rparr>"

text \<open>
  Modelled from the spec: \<^verbatim>\<open>dispatch(name, rawParams)\<close> of section 4.4 for a registered tool,
  \<^verbatim>\<open>McpServer\<close> not being among the sources.
\<close>

definition dispatch :: "env \<Rightarrow> tool_call \<Rightarrow> request list \<times> tool_result" where
  "dispatch env raw =
     (case validate raw of
        Inl violation \<Rightarrow> ([], error_result violation)
      | Inr call \<Rightarrow>
          (case handler env call of
             (reqs, Inl error) \<Rightarrow> (reqs, error_result (error_message error))
           | (reqs, Inr result) \<Rightarrow> (reqs, result)))"

section \<open>The claims in the words of the spec\<close>

text \<open>
  The query the spec describes for a \<^verbatim>\<open>queryParams\<close> mapping: one entry per element of a
  list, in order; one entry for a scalar that is neither \<^verbatim>\<open>null\<close> nor \<^verbatim>\<open>undefined\<close>; nothing
  for \<^verbatim>\<open>null\<close> and \<^verbatim>\<open>undefined\<close>.
\<close>

definition spec_query_entries :: "string \<times> param \<Rightarrow> (string \<times> string) list" where
  "spec_query_entries e =
     (case snd e of
        P_undefined \<Rightarrow> []
      | P_null \<Rightarrow> []
      | P_array items \<Rightarrow> map (Pair (fst e)) items
      | v \<Rightarrow> [(fst e, String_param v)])"

text \<open>\<^verbatim>\<open>url.searchParams.getAll(k)\<close>: the values of the query parameter \<open>k\<close>, in order.\<close>

definition getAll :: "(string \<times> string) list \<Rightarrow> string \<Rightarrow> string list" where
  "getAll q k = map snd (filter (\<lambda>e. fst e = k) q)"

text \<open>
  The detail of an HTTP failure as the spec words it: ``a top-level \<^verbatim>\<open>message\<close> string
  field, else an \<^verbatim>\<open>error.message\<close> string field, else an \<^verbatim>\<open>error\<close> string field, else the raw
  body text if none parse, else the literal "No response body" if the body is empty'', and
  the message built from it.
\<close>

definition string_field :: "json option \<Rightarrow> string option" where
  "string_field v = (case v of Some (JStr s) \<Rightarrow> Some s | _ \<Rightarrow> None)"

definition candidates :: "json \<Rightarrow> json option list" where
  "candidates parsed =
     [optional_property (Some parsed) ''message'',
      optional_property (optional_property (Some parsed) ''error'') ''message'',
      optional_property (Some parsed) ''error'']"

definition spec_detail :: "env \<Rightarrow> string \<Rightarrow> string" where
  "spec_detail env rawBody =
     (if rawBody = [] then ''No response body''
      else
        case JSON_parse env rawBody of
          Inl syntax_error \<Rightarrow> rawBody
        | Inr parsed \<Rightarrow>
            (case List.map_filter string_field (candidates parsed) of
               [] \<Rightarrow> rawBody
             | m # ms \<Rightarrow> m))"

definition spec_http_message :: "env \<Rightarrow> nat \<Rightarrow> string \<Rightarrow> string \<Rightarrow> string" where
  "spec_http_message env st st_text text =
     ''Quo API '' @ dec_nat st @ '' '' @ st_text @ '': '' @ redact_text env (spec_detail env text)"

text \<open>
  The detail in the same form, with the test the code makes: a candidate counts only when
  it is a string with a character that is not white space.
\<close>

definition first_nonblank :: "env \<Rightarrow> string \<Rightarrow> string" where
  "first_nonblank env rawBody =
     (if rawBody = [] then ''No response body''
      else
        case JSON_parse env rawBody of
          Inl syntax_error \<Rightarrow> rawBody
        | Inr parsed \<Rightarrow>
            (case List.map_filter nonblank_string (candidates parsed) of
               [] \<Rightarrow> rawBody
             | m # ms \<Rightarrow> m))"

text \<open>
  The calls whose handler reads \<^verbatim>\<open>result.data\<close> from a value of \<^verbatim>\<open>quoFetch\<close>: the tools
  other than the four that return the envelope and \<^verbatim>\<open>delete_contact\<close>, and for
  \<^verbatim>\<open>update_contact\<close> the calls with a field to update.
\<close>

definition unwraps_data :: "tool_call \<Rightarrow> bool" where
  "unwraps_data call =
     (case call of
        list_messages phoneNumberId participants maxResults createdAfter createdBefore
          pageToken \<Rightarrow> False
      | list_conversations phoneNumbers userId createdAfter createdBefore updatedAfter
          updatedBefore excludeInactive maxResults pageToken \<Rightarrow> False
      | list_contacts maxResults pageToken externalIds \<Rightarrow> False
      | list_calls phoneNumberId participants maxResults createdAfter createdBefore
          pageToken \<Rightarrow> False
      | delete_contact id' \<Rightarrow> False
      | update_contact id' firstName lastName company role phoneNumbers emails \<Rightarrow>
          firstName \<noteq> None \<or> lastName \<noteq> None \<or> company \<noteq> None \<or> role \<noteq> None
          \<or> phoneNumbers \<noteq> None \<or> emails \<noteq> None
      | _ \<Rightarrow> True)"

text \<open>
  The text of the result of \<^verbatim>\<open>update_contact\<close> when there is nothing to update: the
  payload of the handler printed by \<^verbatim>\<open>JSON.stringify(payload, null, 2)\<close>.
\<close>

definition no_fields_text :: string where
  \<open>no_fields_text =
     join [CHR 0x0A]
       [''{'',
        ''  "error": {'',
        ''    "message": "No fields provided for update_contact",'',
        ''    "details": "Pass at least one of: firstName, lastName, company, role, phoneNumbers, emails."'',
        ''  }'',
        ''}'']\<close>

text \<open>A call of a list tool with another value for its \<^verbatim>\<open>maxResults\<close> parameter.\<close>

definition with_maxResults :: "tool_call \<Rightarrow> int option \<Rightarrow> tool_call" where
  "with_maxResults call m =
     (case call of
        list_messages phoneNumberId participants maxResults createdAfter createdBefore
          pageToken \<Rightarrow>
          list_messages phoneNumberId participants m createdAfter createdBefore pageToken
      | list_conversations phoneNumbers userId createdAfter createdBefore updatedAfter
          updatedBefore excludeInactive maxResults pageToken \<Rightarrow>
          list_conversations phoneNumbers userId createdAfter createdBefore updatedAfter
            updatedBefore excludeInactive m pageToken
      | list_contacts maxResults pageToken externalIds \<Rightarrow> list_contacts m pageToken externalIds
      | list_calls phoneNumberId participants maxResults createdAfter createdBefore
          pageToken \<Rightarrow>
          list_calls phoneNumberId participants m createdAfter createdBefore pageToken
      | _ \<Rightarrow> call)"

section \<open>Requests on a timeline\<close>

text \<open>
  How the remote answers one request, in milliseconds from the call of \<^verbatim>\<open>quoFetch\<close>:
  \<open>head_ms\<close> is when \<^verbatim>\<open>fetch\<close> would settle by itself (\<open>None\<close>: never), \<open>head\<close> what it would
  settle with (an error, or the status and status text), \<open>body_ms\<close> when the body would be
  read to its end, \<open>body_text\<close> the body.

  The timer of \<^verbatim>\<open>quoFetch\<close> fires \<open>limit\<close> milliseconds after the call; when it fires, an
  operation that is still pending rejects with the \<^verbatim>\<open>AbortError\<close> of the platform. So an
  operation awaited while the timer is armed settles with its own outcome when it is done
  before \<open>limit\<close>, and with the \<^verbatim>\<open>AbortError\<close> otherwise; a read that runs after
  \<^verbatim>\<open>clearTimeout\<close> settles with its own outcome whenever it is done.
\<close>

record exchange =
  head_ms :: "nat option"
  head :: "js_error + nat \<times> string"
  body_ms :: nat
  body_text :: string

definition AbortError :: js_error where
  "AbortError = \<lparr>error_name = ''AbortError'', error_message = ''This operation was aborted''\<rparr>"

definition timed_fetch :: "nat \<Rightarrow> exchange \<Rightarrow> request \<Rightarrow> js_error + response" where
  "timed_fetch limit ex req =
     (case head_ms ex of
        None \<Rightarrow> Inl AbortError
      | Some t \<Rightarrow>
          if limit \<le> t then Inl AbortError
          else
            (case head ex of
               Inl error \<Rightarrow> Inl error
             | Inr (st, st_text) \<Rightarrow>
                 Inr \<lparr>status = st, statusText = st_text,
                      read_body =
                        (\<lambda>t. case t of
                                Armed \<Rightarrow> if limit \<le> body_ms ex then Inl AbortError
                                          else Inr (body_text ex)
                              | Cleared \<Rightarrow> Inr (body_text ex))\<rparr>))"

section \<open>Example configurations\<close>

text \<open>
  The configuration used in the closed examples below: a key, the default timeout, a
  network given as a function, and \<^verbatim>\<open>JSON.parse\<close> on the body texts the examples use (no
  other text is parsed in them).
\<close>

definition example_bodies :: "(string \<times> json) list" where
  \<open>example_bodies =
     [(''null'', JNull),
      (''{"data":[]}'', JObj [(''data'', JArr [])]),
      (''{"message":"Contact not found"}'', JObj [(''message'', JStr ''Contact not found'')]),
      (''{"message":"","error":"boom"}'', JObj [(''message'', JStr []), (''error'', JStr ''boom'')]),
      (''{"data":[{"id":"US1"}],"nextPageToken":"abc"}'',
         JObj [(''data'', JArr [JObj [(''id'', JStr ''US1'')]]), (''nextPageToken'', JStr ''abc'')]),
      (''{"items":[]}'', JObj [(''items'', JArr [])])]\<close>

definition example_parse :: "string \<Rightarrow> string + json" where
  "example_parse text =
     (case map_of example_bodies text of None \<Rightarrow> Inl ''Unexpected token'' | Some j \<Rightarrow> Inr j)"

definition example_env :: "(request \<Rightarrow> js_error + response) \<Rightarrow> env" where
  "example_env net =
     \<lparr>API_KEY = ''sk_live_42'', HTTP_TIMEOUT_MS = 30000, JSON_parse = example_parse, fetch = net\<rparr>"

definition unreachable :: "request \<Rightarrow> js_error + response" where
  "unreachable req = Inl \<lparr>error_name = ''TypeError'', error_message = ''fetch failed''\<rparr>"

text \<open>A remote that answers every request with the same status, status text and body.\<close>

definition answers :: "nat \<Rightarrow> string \<Rightarrow> string \<Rightarrow> request \<Rightarrow> js_error + response" where
  "answers st st_text body req =
     Inr \<lparr>status = st, statusText = st_text, read_body = (\<lambda>t. Inr body)\<rparr>"

text \<open>A remote whose answer has no body to read: reading it fails.\<close>

definition answers_without_body :: "nat \<Rightarrow> string \<Rightarrow> request \<Rightarrow> js_error + response" where
  "answers_without_body st st_text req =
     Inr \<lparr>status = st, statusText = st_text,
          read_body = (\<lambda>t. Inl \<lparr>error_name = ''TypeError'', error_message = ''terminated''\<rparr>)\<rparr>"

text \<open>
  An answer whose status line arrives after 120 ms and whose body takes a minute, twice
  the timeout of \<open>example_env\<close>.
\<close>

definition slow_body :: "nat \<Rightarrow> string \<Rightarrow> exchange" where
  \<open>slow_body st st_text =
     \<lparr>head_ms = Some 120, head = Inr (st, st_text), body_ms = 60000,
      body_text = ''{"data":[]}''\<rparr>\<close>

section \<open>Properties\<close>

lemmas regex_defs =
  replace_authorization_def match_authorization_def authorization_letters_def opt_quote_def
  is_quote_def is_space_def value_char_def

lemmas stringify_defs =
  JSON_stringify_def wrap_def QuoteJSONString_def quote_char_def String_number_def

lemmas example_defs = example_env_def example_parse_def example_bodies_def answers_def

text \<open>
  Each body text of the examples is the compact \<^verbatim>\<open>JSON.stringify\<close> of the value it is
  parsed to.
\<close>

lemma example_bodies_are_json: "list_all (\<lambda>(text, j). serialize 0 0 j = text) example_bodies"
  by (simp add: example_bodies_def stringify_defs)

subsection \<open>The Secret Redactor\<close>

text \<open>
  C1. The claim is that the output of \<^verbatim>\<open>redactSecrets\<close> never contains the configured key,
  also when the key occurs more than once. \<^verbatim>\<open>text.replace(API_KEY, ...)\<close> has a string
  pattern and so replaces the first occurrence only: with the key \<^verbatim>\<open>sk_live_42\<close>, the text
  \<^verbatim>\<open>key sk_live_42 again sk_live_42\<close> keeps its second occurrence, and so does the object
  \<^verbatim>\<open>{"a": "sk_live_42", "b": "sk_live_42"}\<close>.
\<close>

theorem redactSecrets_second_occurrence_kept:
  \<open>redactSecrets (example_env unreachable) (JS_string ''key sk_live_42 again sk_live_42'')
     = R_string ''key ***REDACTED_API_KEY*** again sk_live_42''
   \<and> js_includes ''key ***REDACTED_API_KEY*** again sk_live_42'' (API_KEY (example_env unreachable))
   \<and> redactSecrets (example_env unreachable)
         (JS_json (JObj [(''a'', JStr ''sk_live_42''), (''b'', JStr ''sk_live_42'')]))
     = R_string ''{"a":"***REDACTED_API_KEY***","b":"sk_live_42"}''
   \<and> js_includes ''{"a":"***REDACTED_API_KEY***","b":"sk_live_42"}''
         (API_KEY (example_env unreachable))\<close>
  by (simp add: redactSecrets_def redact_text_def example_env_def regex_defs wrap_def
      QuoteJSONString_def quote_char_def)

subsection \<open>The query of a request\<close>

text \<open>
  While the names of the entries are distinct, as the keys of an object are, \<^verbatim>\<open>set\<close> never
  finds an earlier pair of the same name, and the loop of \<^verbatim>\<open>quoFetch\<close> appends the entries
  of each parameter in turn.
\<close>

lemma foldl_append_items:
  "foldl (\<lambda>q' item. searchParams_append q' k item) q items = q @ map (Pair k) items"
  by (induction items arbitrary: q) (simp_all add: searchParams_append_def)

lemma searchParams_set_fresh: "k \<notin> fst ` set q \<Longrightarrow> searchParams_set q k v = q @ [(k, v)]"
  by (simp add: searchParams_set_def)

lemma add_param_fresh:
  "fst e \<notin> fst ` set q \<Longrightarrow> add_param q e = q @ spec_query_entries e"
  apply (cases "snd e")
  apply (simp_all add: add_param_def spec_query_entries_def foldl_append_items searchParams_set_fresh)
  done

lemma keys_spec_query_entries: "fst ` set (spec_query_entries e) \<subseteq> {fst e}"
  by (cases "snd e") (auto simp: spec_query_entries_def)

lemma foldl_add_param_distinct:
  "distinct (map fst params) \<Longrightarrow> fst ` set q \<inter> fst ` set params = {} \<Longrightarrow>
     foldl add_param q params = q @ concat (map spec_query_entries params)"
proof (induction params arbitrary: q)
  case Nil
  then show ?case by simp
next
  case (Cons e params)
  have fresh: "fst e \<notin> fst ` set q" using Cons.prems(2) by auto
  have e_new: "fst e \<notin> fst ` set params" using Cons.prems(1) by simp
  have q_disj: "fst ` set q \<inter> fst ` set params = {}" using Cons.prems(2) by auto
  have split: "fst ` set (q @ spec_query_entries e)
                 = fst ` set q \<union> fst ` set (spec_query_entries e)"
    by (simp add: image_Un)
  have "fst ` set (spec_query_entries e) \<inter> fst ` set params = {}"
  proof (rule equals0I)
    fix x assume x: "x \<in> fst ` set (spec_query_entries e) \<inter> fst ` set params"
    then have "x \<in> {fst e}" using keys_spec_query_entries [of e] by (meson IntD1 subsetD)
    then have "x = fst e" by (rule singletonD)
    moreover from x have "x \<in> fst ` set params" by (rule IntD2)
    ultimately show False using e_new by simp
  qed
  then have disj: "fst ` set (q @ spec_query_entries e) \<inter> fst ` set params = {}"
    by (simp only: split Int_Un_distrib2 q_disj Un_empty_left)
  have dist: "distinct (map fst params)" using Cons.prems(1) by simp
  have "foldl add_param (q @ spec_query_entries e) params
          = (q @ spec_query_entries e) @ concat (map spec_query_entries params)"
    by (rule Cons.IH [OF dist disj])
  then show ?case by (simp add: add_param_fresh [OF fresh])
qed

lemma build_query_distinct:
  "distinct (map fst params) \<Longrightarrow> build_query params = concat (map spec_query_entries params)"
  using foldl_add_param_distinct [of params "[]"] by (simp add: build_query_def)

lemma filter_key_entries:
  "filter (\<lambda>x. fst x = k) (spec_query_entries e) = (if fst e = k then spec_query_entries e else [])"
  by (cases "snd e") (auto simp: spec_query_entries_def filter_empty_conv)

lemma filter_key_absent:
  "k \<notin> fst ` set params \<Longrightarrow>
     filter (\<lambda>x. fst x = k) (concat (map spec_query_entries params)) = []"
  by (induction params) (auto simp: filter_key_entries)

lemma filter_key_concat:
  "distinct (map fst params) \<Longrightarrow> (k, v) \<in> set params \<Longrightarrow>
     filter (\<lambda>x. fst x = k) (concat (map spec_query_entries params)) = spec_query_entries (k, v)"
proof (induction params)
  case Nil
  then show ?case by simp
next
  case (Cons e params)
  show ?case
  proof (cases "e = (k, v)")
    case True
    have "k \<notin> fst ` set params" using Cons.prems(1) True by auto
    then show ?thesis using True by (simp add: filter_key_entries filter_key_absent)
  next
    case False
    then have mem: "(k, v) \<in> set params" using Cons.prems(2) by auto
    then have "k \<in> fst ` set params" by force
    then have "fst e \<noteq> k" using Cons.prems(1) by auto
    then show ?thesis using Cons.IH mem Cons.prems(1) by (simp add: filter_key_entries)
  qed
qed

lemma getAll_concat_entries:
  "getAll (concat (map spec_query_entries params)) k
     = concat (map (\<lambda>e. if fst e = k then map snd (spec_query_entries e) else []) params)"
  by (induction params) (simp_all add: getAll_def filter_key_entries)

lemma getAll_build_query:
  "distinct (map fst params) \<Longrightarrow>
     getAll (build_query params) k
       = concat (map (\<lambda>e. if fst e = k then map snd (spec_query_entries e) else []) params)"
  by (simp only: build_query_distinct getAll_concat_entries)

text \<open>
  C7. For a \<^verbatim>\<open>params\<close> object (its keys are distinct), the query of the request that
  \<^verbatim>\<open>quoFetch\<close> sends is the one the spec describes, the entries in the order of the object
  and, for each key, exactly the pairs of its entry: an array gives one
  pair per element under the same key, in the order of the array; a scalar that is neither
  \<^verbatim>\<open>null\<close> nor \<^verbatim>\<open>undefined\<close> gives exactly one pair; \<^verbatim>\<open>null\<close> and \<^verbatim>\<open>undefined\<close> give no pair
  (\<open>spec_query_entries\<close> is empty for them), so the key does not occur in the query.
\<close>

theorem query_string_construction:
  "distinct (map fst params) \<Longrightarrow> opt_params opts = Some params \<Longrightarrow>
     req_query (fst (quoFetch env path opts)) = concat (map spec_query_entries params)
     \<and> (\<forall>k v. (k, v) \<in> set params \<longrightarrow>
           filter (\<lambda>e. fst e = k) (req_query (fst (quoFetch env path opts)))
             = spec_query_entries (k, v))"
proof (intro conjI allI impI)
  assume d: "distinct (map fst params)" and o: "opt_params opts = Some params"
  have q: "req_query (fst (quoFetch env path opts)) = build_query params"
    by (simp add: quoFetch_def Let_def build_request_def o)
  show "req_query (fst (quoFetch env path opts)) = concat (map spec_query_entries params)"
    unfolding q by (rule build_query_distinct [OF d])
  fix k v assume "(k, v) \<in> set params"
  then show "filter (\<lambda>e. fst e = k) (req_query (fst (quoFetch env path opts)))
               = spec_query_entries (k, v)"
    unfolding q using filter_key_concat [OF d] by (simp only: build_query_distinct [OF d])
qed

text \<open>
  The theorem at the parameters of a \<^verbatim>\<open>list_messages\<close> call with two participants, a page
  size, a date that is \<^verbatim>\<open>undefined\<close> and a token that is \<^verbatim>\<open>null\<close>.
\<close>

theorem query_string_construction_witness:
  "distinct (map fst [(''phoneNumberId'', P_string ''PN1''),
                      (''participants'', P_array [''+15550001'', ''+15550002'']),
                      (''maxResults'', P_number 20),
                      (''createdAfter'', P_undefined),
                      (''pageToken'', P_null)])
   \<and> req_query (fst (quoFetch (example_env unreachable) ''/messages''
          \<lparr>opt_method = ''GET'', opt_body = None,
           opt_params = Some [(''phoneNumberId'', P_string ''PN1''),
                              (''participants'', P_array [''+15550001'', ''+15550002'']),
                              (''maxResults'', P_number 20),
                              (''createdAfter'', P_undefined),
                              (''pageToken'', P_null)]\<rparr>))
       = [(''phoneNumberId'', ''PN1''), (''participants'', ''+15550001''),
          (''participants'', ''+15550002''), (''maxResults'', ''20'')]
   \<and> (''participants'', P_array [''+15550001'', ''+15550002''])
         \<in> set [(''phoneNumberId'', P_string ''PN1''),
                 (''participants'', P_array [''+15550001'', ''+15550002'']),
                 (''maxResults'', P_number 20),
                 (''createdAfter'', P_undefined),
                 (''pageToken'', P_null)]
   \<and> filter (\<lambda>e. fst e = ''participants'')
         (req_query (fst (quoFetch (example_env unreachable) ''/messages''
            \<lparr>opt_method = ''GET'', opt_body = None,
             opt_params = Some [(''phoneNumberId'', P_string ''PN1''),
                                (''participants'', P_array [''+15550001'', ''+15550002'']),
                                (''maxResults'', P_number 20),
                                (''createdAfter'', P_undefined),
                                (''pageToken'', P_null)]\<rparr>)))
       = [(''participants'', ''+15550001''), (''participants'', ''+15550002'')]"
  using query_string_construction
    [of "[(''phoneNumberId'', P_string ''PN1''),
          (''participants'', P_array [''+15550001'', ''+15550002'']),
          (''maxResults'', P_number 20),
          (''createdAfter'', P_undefined),
          (''pageToken'', P_null)]"
        "\<lparr>opt_method = ''GET'', opt_body = None,
          opt_params = Some [(''phoneNumberId'', P_string ''PN1''),
                             (''participants'', P_array [''+15550001'', ''+15550002'']),
                             (''maxResults'', P_number 20),
                             (''createdAfter'', P_undefined),
                             (''pageToken'', P_null)]\<rparr>"
        "example_env unreachable" "''/messages''"]
  by (simp add: spec_query_entries_def String_param_def String_number_def)

subsection \<open>What a handler sends and returns\<close>

lemma fst_await_quoFetch:
  "fst (await_quoFetch env path opts shape) = [build_request env path opts]"
  by (simp add: await_quoFetch_def quoFetch_def Let_def split: sum.split)

lemma snd_await_quoFetch:
  "snd (await_quoFetch env path opts shape) =
     (case settle env (fetch env (build_request env path opts)) of
        Inl error \<Rightarrow> Inl error
      | Inr result \<Rightarrow> shape result)"
  by (simp add: await_quoFetch_def quoFetch_def Let_def split: sum.split)

lemmas query_simps =
  fst_await_quoFetch build_request_def getAll_build_query spec_query_entries_def
  String_param_def string_param_def number_param_def array_param_def boolean_param_def






subsection \<open>update_contact without fields\<close>

text \<open>
  C4. When the six optional fields of \<^verbatim>\<open>update_contact\<close> are all \<^verbatim>\<open>undefined\<close>, the handler
  sends no request (the list of requests is empty) and returns a result with the error flag
  set, whose text is the printed payload and says to pass at least one field.
\<close>

theorem update_contact_without_fields:
  "handler env (update_contact id' None None None None None None)
     = ([], Inr \<lparr>content = [text_block (Some no_fields_text)], isError = True\<rparr>)
   \<and> js_includes no_fields_text ''Pass at least one of''"
  by (simp add: jsonToolResponse_def no_fields_payload_def no_fields_text_def stringify_defs
      if_defined_string_def if_defined_entries_def)

text \<open>With a field to update, the handler sends one request.\<close>

lemma update_contact_with_fields:
  "unwraps_data (update_contact id' firstName lastName company role phoneNumbers emails) \<Longrightarrow>
     length (fst (handler env
        (update_contact id' firstName lastName company role phoneNumbers emails))) = 1"
  by (auto simp add: unwraps_data_def Let_def fst_await_quoFetch if_defined_string_def
      if_defined_entries_def)

subsection \<open>Status 204\<close>

lemma settle_204: "status res = 204 \<Longrightarrow> settle env (Inr res) = Inr (JObj [(''success'', JBool True)])"
  by (simp add: settle_def res_ok_def)

text \<open>
  C9. For a response with status 204, \<^verbatim>\<open>quoFetch\<close> returns the object
  \<^verbatim>\<open>{success: true}\<close>, whatever reading or parsing the body would give (the response \<open>res\<close>
  and the configuration are arbitrary); and \<^verbatim>\<open>delete_contact\<close> then returns a result
  without the error flag whose text is \<^verbatim>\<open>Contact <id> deleted.\<close>
\<close>

theorem no_content_is_success:
  "status res = 204 \<Longrightarrow>
     (fetch env (build_request env path opts) = Inr res \<longrightarrow>
        quoFetch env path opts
          = (build_request env path opts, Inr (JObj [(''success'', JBool True)])))
     \<and> (fetch env (build_request env (''/contacts/'' @ id')
                      \<lparr>opt_method = ''DELETE'', opt_body = None, opt_params = None\<rparr>) = Inr res \<longrightarrow>
        snd (handler env (delete_contact id'))
          = Inr \<lparr>content = [text_block (Some (''Contact '' @ id' @ '' deleted.''))],
                 isError = False\<rparr>)"
  by (simp add: quoFetch_def Let_def settle_204 snd_await_quoFetch)

text \<open>
  The theorem at a response with status 204 whose body cannot be read at all.
\<close>

theorem no_content_is_success_witness:
  "status \<lparr>status = 204, statusText = ''No Content'',
           read_body = (\<lambda>t. Inl \<lparr>error_name = ''TypeError'', error_message = ''terminated''\<rparr>)\<rparr> = 204
   \<and> snd (quoFetch (example_env (answers_without_body 204 ''No Content'')) ''/contacts/c1''
            \<lparr>opt_method = ''DELETE'', opt_body = None, opt_params = None\<rparr>)
       = Inr (JObj [(''success'', JBool True)])
   \<and> snd (handler (example_env (answers_without_body 204 ''No Content'')) (delete_contact ''c1''))
       = Inr \<lparr>content = [text_block (Some ''Contact c1 deleted.'')], isError = False\<rparr>"
  using no_content_is_success
    [of "\<lparr>status = 204, statusText = ''No Content'',
           read_body = (\<lambda>t. Inl \<lparr>error_name = ''TypeError'', error_message = ''terminated''\<rparr>)\<rparr>"
        "example_env (answers_without_body 204 ''No Content'')" "''/contacts/c1''"
        "\<lparr>opt_method = ''DELETE'', opt_body = None, opt_params = None\<rparr>" "''c1''"]
  by (simp add: example_env_def answers_without_body_def)

subsection \<open>Page sizes\<close>

lemma declares_maxResults_cases:
  "declares (tool_name call) ''maxResults'' \<Longrightarrow>
     (\<exists>p ps m ca cb pt. call = list_messages p ps m ca cb pt)
     \<or> (\<exists>pns u ca cb ua ub ex m pt. call = list_conversations pns u ca cb ua ub ex m pt)
     \<or> (\<exists>m pt ids. call = list_contacts m pt ids)
     \<or> (\<exists>p ps m ca cb pt. call = list_calls p ps m ca cb pt)"
  by (cases call) (simp_all add: declares_def tool_parameters_def)

lemma fst_dispatch:
  "fst (dispatch env raw)
     = (case validate raw of Inl violation \<Rightarrow> [] | Inr call \<Rightarrow> fst (handler env call))"
  by (simp add: dispatch_def split: sum.split prod.split)

lemma snd_dispatch:
  "snd (dispatch env raw)
     = (case validate raw of
          Inl violation \<Rightarrow> error_result violation
        | Inr call \<Rightarrow>
            (case snd (handler env call) of
               Inl error \<Rightarrow> error_result (error_message error)
             | Inr result \<Rightarrow> result))"
  by (simp add: dispatch_def split: sum.split prod.split)

lemmas validate_defs =
  validate_def validate_maxResults_def validate_number_def maxResults_schema_def
  with_maxResults_def

lemma page_size_list_messages:
  fixes n :: int
  shows "validate (with_maxResults (list_messages p ps m ca cb pt) None) = Inr (with_maxResults (list_messages p ps m ca cb pt) (Some 20))"
    and "map (\<lambda>req. getAll (req_query req) ''maxResults'')
             (fst (dispatch env (with_maxResults (list_messages p ps m ca cb pt) None))) = [[''20'']]"
    and "(validate (with_maxResults (list_messages p ps m ca cb pt) (Some n))
            = Inr (with_maxResults (list_messages p ps m ca cb pt) (Some n)))
           = (1 \<le> n \<and> n \<le> 100)"
    and "\<not> (1 \<le> n \<and> n \<le> 100) \<Longrightarrow>
           \<exists>v. validate (with_maxResults (list_messages p ps m ca cb pt) (Some n)) = Inl v
               \<and> dispatch env (with_maxResults (list_messages p ps m ca cb pt) (Some n)) = ([], error_result v)"
  subgoal by (simp add: validate_defs)
  subgoal by (simp add: fst_dispatch validate_defs query_simps String_number_def)
  subgoal by (auto simp add: validate_defs)
  subgoal by (auto simp add: validate_defs dispatch_def)
  done

lemma page_size_list_conversations:
  fixes n :: int
  shows "validate (with_maxResults (list_conversations pns u ca cb ua ub ex m pt) None) = Inr (with_maxResults (list_conversations pns u ca cb ua ub ex m pt) (Some 20))"
    and "map (\<lambda>req. getAll (req_query req) ''maxResults'')
             (fst (dispatch env (with_maxResults (list_conversations pns u ca cb ua ub ex m pt) None))) = [[''20'']]"
    and "(validate (with_maxResults (list_conversations pns u ca cb ua ub ex m pt) (Some n))
            = Inr (with_maxResults (list_conversations pns u ca cb ua ub ex m pt) (Some n)))
           = (1 \<le> n \<and> n \<le> 100)"
    and "\<not> (1 \<le> n \<and> n \<le> 100) \<Longrightarrow>
           \<exists>v. validate (with_maxResults (list_conversations pns u ca cb ua ub ex m pt) (Some n)) = Inl v
               \<and> dispatch env (with_maxResults (list_conversations pns u ca cb ua ub ex m pt) (Some n)) = ([], error_result v)"
  subgoal by (simp add: validate_defs)
  subgoal by (simp add: fst_dispatch validate_defs query_simps String_number_def)
  subgoal by (auto simp add: validate_defs)
  subgoal by (auto simp add: validate_defs dispatch_def)
  done

lemma page_size_list_contacts:
  fixes n :: int
  shows "validate (with_maxResults (list_contacts m pt ids) None) = Inr (with_maxResults (list_contacts m pt ids) (Some 20))"
    and "map (\<lambda>req. getAll (req_query req) ''maxResults'')
             (fst (dispatch env (with_maxResults (list_contacts m pt ids) None))) = [[''20'']]"
    and "(validate (with_maxResults (list_contacts m pt ids) (Some n))
            = Inr (with_maxResults (list_contacts m pt ids) (Some n)))
           = (1 \<le> n \<and> n \<le> 50)"
    and "\<not> (1 \<le> n \<and> n \<le> 50) \<Longrightarrow>
           \<exists>v. validate (with_maxResults (list_contacts m pt ids) (Some n)) = Inl v
               \<and> dispatch env (with_maxResults (list_contacts m pt ids) (Some n)) = ([], error_result v)"
  subgoal by (simp add: validate_defs)
  subgoal by (simp add: fst_dispatch validate_defs query_simps String_number_def)
  subgoal by (auto simp add: validate_defs)
  subgoal by (auto simp add: validate_defs dispatch_def)
  done

lemma page_size_list_calls:
  fixes n :: int
  shows "validate (with_maxResults (list_calls p ps m ca cb pt) None) = Inr (with_maxResults (list_calls p ps m ca cb pt) (Some 20))"
    and "map (\<lambda>req. getAll (req_query req) ''maxResults'')
             (fst (dispatch env (with_maxResults (list_calls p ps m ca cb pt) None))) = [[''20'']]"
    and "(validate (with_maxResults (list_calls p ps m ca cb pt) (Some n))
            = Inr (with_maxResults (list_calls p ps m ca cb pt) (Some n)))
           = (1 \<le> n \<and> n \<le> 100)"
    and "\<not> (1 \<le> n \<and> n \<le> 100) \<Longrightarrow>
           \<exists>v. validate (with_maxResults (list_calls p ps m ca cb pt) (Some n)) = Inl v
               \<and> dispatch env (with_maxResults (list_calls p ps m ca cb pt) (Some n)) = ([], error_result v)"
  subgoal by (simp add: validate_defs)
  subgoal by (simp add: fst_dispatch validate_defs query_simps String_number_def)
  subgoal by (auto simp add: validate_defs)
  subgoal by (auto simp add: validate_defs dispatch_def)
  done

text \<open>
  What the handlers do with the page size they receive: a number is sent as the query
  parameter \<^verbatim>\<open>maxResults\<close>, and when they receive \<^verbatim>\<open>undefined\<close> the request has no such
  parameter. So the default of 20 reaches the remote only if validation hands the handler
  the number 20.
\<close>

lemma maxResults_as_received:
  "map (\<lambda>req. getAll (req_query req) ''maxResults'')
       (fst (handler env (list_messages p ps m ca cb pt)))
     = [case m of None \<Rightarrow> [] | Some n \<Rightarrow> [String_number n]]"
  "map (\<lambda>req. getAll (req_query req) ''maxResults'')
       (fst (handler env (list_conversations pns u ca cb ua ub ex m pt)))
     = [case m of None \<Rightarrow> [] | Some n \<Rightarrow> [String_number n]]"
  "map (\<lambda>req. getAll (req_query req) ''maxResults'')
       (fst (handler env (list_contacts m pt ids)))
     = [case m of None \<Rightarrow> [] | Some n \<Rightarrow> [String_number n]]"
  "map (\<lambda>req. getAll (req_query req) ''maxResults'')
       (fst (handler env (list_calls p ps m ca cb pt)))
     = [case m of None \<Rightarrow> [] | Some n \<Rightarrow> [String_number n]]"
  by (simp_all add: query_simps split: option.split)

text \<open>
  C3. For every tool that declares \<^verbatim>\<open>maxResults\<close>: when the caller omits it, validation hands
  the handler the call with \<^verbatim>\<open>maxResults = 20\<close>, and the one request sent has the query
  parameter \<^verbatim>\<open>maxResults=20\<close>; a supplied value passes validation unchanged exactly when it
  lies in 1..100, or in 1..50 for \<^verbatim>\<open>list_contacts\<close>; otherwise validation rejects, no request
  is sent and the result has the error flag set. Validation is the part modelled from the
  spec (section ``Validation and dispatch''); handler and gateway are the code.
\<close>

theorem page_size_default_and_bounds:
  fixes n :: int
  assumes "declares (tool_name call) ''maxResults''"
  shows "validate (with_maxResults call None) = Inr (with_maxResults call (Some 20))
    \<and> map (\<lambda>req. getAll (req_query req) ''maxResults'')
          (fst (dispatch env (with_maxResults call None))) = [[''20'']]
    \<and> ((validate (with_maxResults call (Some n)) = Inr (with_maxResults call (Some n)))
          = (1 \<le> n \<and> n \<le> (if tool_name call = ''list_contacts'' then 50 else 100)))
    \<and> (\<not> (1 \<le> n \<and> n \<le> (if tool_name call = ''list_contacts'' then 50 else 100)) \<longrightarrow>
          (\<exists>v. validate (with_maxResults call (Some n)) = Inl v
              \<and> dispatch env (with_maxResults call (Some n)) = ([], error_result v)))"
proof -
  consider
      (messages) p ps m ca cb pt where "call = list_messages p ps m ca cb pt"
    | (conversations) pns u ca cb ua ub ex m pt
        where "call = list_conversations pns u ca cb ua ub ex m pt"
    | (contacts) m pt ids where "call = list_contacts m pt ids"
    | (calls) p ps m ca cb pt where "call = list_calls p ps m ca cb pt"
    using declares_maxResults_cases [OF assms] by fast
  then show ?thesis
  proof cases
    case messages
    show ?thesis
      unfolding messages by (simp add: page_size_list_messages)
  next
    case conversations
    show ?thesis
      unfolding conversations by (simp add: page_size_list_conversations)
  next
    case contacts
    show ?thesis
      unfolding contacts by (simp add: page_size_list_contacts)
  next
    case calls
    show ?thesis
      unfolding calls by (simp add: page_size_list_calls)
  qed
qed

text \<open>
  The theorem at \<^verbatim>\<open>list_contacts\<close>, without a page size and with the page size 51.
\<close>

theorem page_size_default_and_bounds_witness:
  \<open>declares (tool_name (list_contacts None None None)) ''maxResults''
   \<and> validate (list_contacts None None None) = Inr (list_contacts (Some 20) None None)
   \<and> map (\<lambda>req. getAll (req_query req) ''maxResults'')
        (fst (dispatch (example_env (answers 200 ''OK'' ''{"items":[]}''))
                (list_contacts None None None))) = [[''20'']]
   \<and> \<not> (1 \<le> (51::int) \<and> (51::int) \<le> 50)
   \<and> dispatch (example_env (answers 200 ''OK'' ''{"items":[]}'')) (list_contacts (Some 51) None None)
       = ([], error_result ''maxResults: above the maximum'')\<close>
  using page_size_default_and_bounds
    [of "list_contacts None None None" "example_env (answers 200 ''OK'' ''{\"items\":[]}'')" 51]
  by (simp add: declares_def tool_parameters_def validate_defs)

subsection \<open>HTTP failures\<close>

lemma extractErrorMessage_first_nonblank:
  "extractErrorMessage env text = first_nonblank env text"
  by (simp add: extractErrorMessage_def first_nonblank_def candidates_def List.map_filter_simps
      split: sum.split option.split)

lemma settle_http_failure:
  "\<not> res_ok res \<Longrightarrow> read_body res Armed = Inr text \<Longrightarrow>
     settle env (Inr res)
       = Inl (Error (redact_text env
                (''Quo API '' @ dec_nat (status res) @ '' '' @ statusText res @ '': ''
                 @ redact_text env (extractErrorMessage env text))))"
  by (simp add: settle_def res_text_def catch_block_def http_error_def Error_def new_Error_def
      redactSecrets_def template_def)

text \<open>
  C5, as the code has it. For a response whose status is outside 200..299 and whose body
  can be read, \<^verbatim>\<open>quoFetch\<close> fails with an \<^verbatim>\<open>Error\<close> whose message is the Secret Redactor
  applied to \<^verbatim>\<open>Quo API <status> <statusText>: <detail>\<close> (the \<^verbatim>\<open>catch\<close> block redacts the
  whole message once more), where the detail is the Secret Redactor applied to: \<^verbatim>\<open>No
  response body\<close> for an empty body; the raw body when it is not JSON; otherwise the first
  of \<^verbatim>\<open>message\<close>, \<^verbatim>\<open>error.message\<close> and \<^verbatim>\<open>error\<close> of the parsed body that is a string with a
  character other than white space, and the raw body when there is none
  (\<open>first_nonblank\<close>).
\<close>

theorem http_failure_message:
  "fetch env (build_request env path opts) = Inr res \<Longrightarrow> \<not> res_ok res \<Longrightarrow>
   read_body res Armed = Inr text \<Longrightarrow>
     snd (quoFetch env path opts)
       = Inl (Error (redact_text env
                (''Quo API '' @ dec_nat (status res) @ '' '' @ statusText res @ '': ''
                 @ redact_text env (first_nonblank env text))))"
  by (simp add: quoFetch_def Let_def settle_http_failure extractErrorMessage_first_nonblank)

text \<open>
  The theorem at the status 404 with the body \<^verbatim>\<open>{"message":"Contact not found"}\<close>: the
  message is \<^verbatim>\<open>Quo API 404 Not Found: Contact not found\<close>, also as the error of the
  handler of \<^verbatim>\<open>get_contact\<close>.
\<close>

theorem http_failure_message_witness:
  \<open>fetch (example_env (answers 404 ''Not Found'' ''{"message":"Contact not found"}''))
      (build_request (example_env (answers 404 ''Not Found'' ''{"message":"Contact not found"}''))
         ''/contacts/missing-id'' no_options)
     = Inr \<lparr>status = 404, statusText = ''Not Found'',
            read_body = (\<lambda>t. Inr ''{"message":"Contact not found"}'')\<rparr>
   \<and> \<not> res_ok \<lparr>status = 404, statusText = ''Not Found'',
                 read_body = (\<lambda>t. Inr ''{"message":"Contact not found"}'')\<rparr>
   \<and> read_body \<lparr>status = 404, statusText = ''Not Found'',
                 read_body = (\<lambda>t. Inr ''{"message":"Contact not found"}'')\<rparr> Armed
       = Inr ''{"message":"Contact not found"}''
   \<and> snd (quoFetch (example_env (answers 404 ''Not Found'' ''{"message":"Contact not found"}''))
            ''/contacts/missing-id'' no_options)
       = Inl (Error ''Quo API 404 Not Found: Contact not found'')
   \<and> snd (handler (example_env (answers 404 ''Not Found'' ''{"message":"Contact not found"}''))
            (get_contact ''missing-id''))
       = Inl (Error ''Quo API 404 Not Found: Contact not found'')
   \<and> js_includes ''Quo API 404 Not Found: Contact not found'' ''404''
   \<and> js_includes ''Quo API 404 Not Found: Contact not found'' ''Contact not found''\<close>
proof -
  let ?body = \<open>''{"message":"Contact not found"}''\<close>
  let ?env = "example_env (answers 404 ''Not Found'' ?body)"
  let ?res = "\<lparr>status = 404, statusText = ''Not Found'', read_body = (\<lambda>t. Inr ?body)\<rparr>"
  have f: "fetch ?env (build_request ?env ''/contacts/missing-id'' no_options) = Inr ?res"
    by (simp add: example_env_def answers_def)
  have nok: "\<not> res_ok ?res" by (simp add: res_ok_def)
  have b: "read_body ?res Armed = Inr ?body" by simp
  have d: "first_nonblank ?env ?body = ''Contact not found''"
    by (simp add: first_nonblank_def candidates_def example_defs optional_property_def
        property_def nonblank_string_def trim_def is_space_def List.map_filter_simps)
  have r1: "redact_text ?env ''Contact not found'' = ''Contact not found''"
    by (simp add: redact_text_def example_env_def regex_defs)
  have r2: "redact_text ?env ''Quo API 404 Not Found: Contact not found''
              = ''Quo API 404 Not Found: Contact not found''"
    by (simp add: redact_text_def example_env_def regex_defs)
  have q: "snd (quoFetch ?env ''/contacts/missing-id'' no_options)
             = Inl (Error ''Quo API 404 Not Found: Contact not found'')"
    using http_failure_message [OF f nok b] by (simp add: d r1 r2)
  have h: "snd (handler ?env (get_contact ''missing-id''))
             = Inl (Error ''Quo API 404 Not Found: Contact not found'')"
    using q by (simp add: snd_await_quoFetch quoFetch_def Let_def)
  show ?thesis using f nok b q h by simp
qed

text \<open>
  At the dispatch boundary as the spec describes it, this error becomes the error result
  of the tool call.
\<close>

lemma get_contact_404_error_result:
  \<open>snd (dispatch (example_env (answers 404 ''Not Found'' ''{"message":"Contact not found"}''))
          (get_contact ''missing-id''))
     = error_result ''Quo API 404 Not Found: Contact not found''\<close>
proof -
  let ?body = \<open>''{"message":"Contact not found"}''\<close>
  let ?env = "example_env (answers 404 ''Not Found'' ?body)"
  have e: "extractErrorMessage ?env ?body = ''Contact not found''"
    by (simp add: extractErrorMessage_def example_defs optional_property_def property_def
        nonblank_string_def trim_def is_space_def)
  have r1: "redact_text ?env ''Contact not found'' = ''Contact not found''"
    by (simp add: redact_text_def example_env_def regex_defs)
  have r2: "redact_text ?env ''Quo API 404 Not Found: Contact not found''
              = ''Quo API 404 Not Found: Contact not found''"
    by (simp add: redact_text_def example_env_def regex_defs)
  let ?res = "\<lparr>status = 404, statusText = ''Not Found'', read_body = (\<lambda>t. Inr ?body)\<rparr>"
  have f: "fetch ?env req = Inr ?res" for req
    by (simp add: example_env_def answers_def)
  have nok: "\<not> res_ok ?res" by (simp add: res_ok_def)
  have b: "read_body ?res Armed = Inr ?body" by simp
  have "settle ?env (Inr ?res) = Inl (Error ''Quo API 404 Not Found: Contact not found'')"
    using settle_http_failure [OF nok b, of ?env] by (simp add: e r1 r2)
  then have "snd (handler ?env (get_contact ''missing-id''))
               = Inl (Error ''Quo API 404 Not Found: Contact not found'')"
    by (simp add: snd_await_quoFetch f)
  then show ?thesis
    by (simp add: snd_dispatch validate_def Error_def)
qed

text \<open>
  C5 as the claim words it fails: for the body \<^verbatim>\<open>{"message":"","error":"boom"}\<close> the
  top-level \<^verbatim>\<open>message\<close> is a string field, so the detail of the claim is the empty string,
  while the code skips a blank string and takes \<^verbatim>\<open>error\<close>.
\<close>

theorem http_failure_blank_message_counterexample:
  \<open>snd (quoFetch (example_env (answers 500 ''Internal Server Error''
                                  ''{"message":"","error":"boom"}''))
          ''/contacts/c1'' no_options)
     = Inl (Error ''Quo API 500 Internal Server Error: boom'')
   \<and> spec_http_message (example_env (answers 500 ''Internal Server Error''
                                        ''{"message":"","error":"boom"}''))
         500 ''Internal Server Error'' ''{"message":"","error":"boom"}''
     = ''Quo API 500 Internal Server Error: ''
   \<and> snd (quoFetch (example_env (answers 500 ''Internal Server Error''
                                  ''{"message":"","error":"boom"}''))
          ''/contacts/c1'' no_options)
     \<noteq> Inl (Error (spec_http_message
                      (example_env (answers 500 ''Internal Server Error''
                                      ''{"message":"","error":"boom"}''))
                      500 ''Internal Server Error'' ''{"message":"","error":"boom"}''))\<close>
proof -
  let ?body = \<open>''{"message":"","error":"boom"}''\<close>
  let ?env = "example_env (answers 500 ''Internal Server Error'' ?body)"
  have e: "extractErrorMessage ?env ?body = ''boom''"
    by (simp add: extractErrorMessage_def example_defs optional_property_def
        property_def nonblank_string_def trim_def is_space_def)
  have s: "spec_detail ?env ?body = []"
    by (simp add: spec_detail_def candidates_def example_defs optional_property_def
        property_def string_field_def List.map_filter_simps)
  have r0: "redact_text ?env [] = []"
    by (simp add: redact_text_def example_env_def regex_defs)
  have r1: "redact_text ?env ''boom'' = ''boom''"
    by (simp add: redact_text_def example_env_def regex_defs)
  have r2: "redact_text ?env ''Quo API 500 Internal Server Error: boom''
              = ''Quo API 500 Internal Server Error: boom''"
    by (simp add: redact_text_def example_env_def regex_defs)
  let ?res = "\<lparr>status = 500, statusText = ''Internal Server Error'',
               read_body = (\<lambda>t. Inr ?body)\<rparr>"
  have f: "fetch ?env (build_request ?env ''/contacts/c1'' no_options) = Inr ?res"
    by (simp add: example_env_def answers_def)
  have nok: "\<not> res_ok ?res" by (simp add: res_ok_def)
  have b: "read_body ?res Armed = Inr ?body" by simp
  have "settle ?env (Inr ?res) = Inl (Error ''Quo API 500 Internal Server Error: boom'')"
    using settle_http_failure [OF nok b, of ?env] by (simp add: e r1 r2)
  then have q: "snd (quoFetch ?env ''/contacts/c1'' no_options)
             = Inl (Error ''Quo API 500 Internal Server Error: boom'')"
    by (simp add: quoFetch_def Let_def f)
  have m: "spec_http_message ?env 500 ''Internal Server Error'' ?body
             = ''Quo API 500 Internal Server Error: ''"
    by (simp add: spec_http_message_def s r0)
  show ?thesis unfolding q m by (simp add: Error_def)
qed

subsection \<open>List tools: envelope or data\<close>

lemma envelope_tools:
  "tool_name call \<in> {''list_messages'', ''list_conversations'', ''list_contacts'', ''list_calls''} \<Longrightarrow>
     declares (tool_name call) ''maxResults'' \<and> declares (tool_name call) ''pageToken''
     \<and> snd (handler env call)
         = (case settle env (fetch env (hd (fst (handler env call)))) of
              Inl error \<Rightarrow> Inl error
            | Inr result \<Rightarrow> envelope_result result)"
  by (cases call)
     (simp_all add: declares_def tool_parameters_def snd_await_quoFetch fst_await_quoFetch)

lemma data_list_tools:
  "tool_name call \<in> {''list_phone_numbers'', ''list_users'', ''list_webhooks''} \<Longrightarrow>
     \<not> declares (tool_name call) ''maxResults'' \<and> \<not> declares (tool_name call) ''pageToken''
     \<and> snd (handler env call)
         = (case settle env (fetch env (hd (fst (handler env call)))) of
              Inl error \<Rightarrow> Inl error
            | Inr result \<Rightarrow> data_result result)"
  by (cases call)
     (simp_all add: declares_def tool_parameters_def snd_await_quoFetch fst_await_quoFetch)

lemma unwrapping_tools:
  "unwraps_data call \<Longrightarrow>
     snd (handler env call)
       = (case settle env (fetch env (hd (fst (handler env call)))) of
            Inl error \<Rightarrow> Inl error
          | Inr result \<Rightarrow> data_result result)"
  by (cases call)
     (auto simp add: unwraps_data_def snd_await_quoFetch fst_await_quoFetch Let_def
        if_defined_string_def if_defined_entries_def)

lemma example_200_settles:
  "map_of example_bodies body = Some j \<Longrightarrow>
     settle (example_env (answers 200 ''OK'' body)) (fetch (example_env (answers 200 ''OK'' body)) req)
       = Inr j"
  by (simp add: settle_def res_ok_def res_json_def example_env_def example_parse_def answers_def)

text \<open>
  C2, as the code has it. When the gateway returns the value \<open>result\<close>:
  \<^verbatim>\<open>list_messages\<close>, \<^verbatim>\<open>list_conversations\<close>, \<^verbatim>\<open>list_contacts\<close> and \<^verbatim>\<open>list_calls\<close> declare the
  parameters \<^verbatim>\<open>maxResults\<close> and \<^verbatim>\<open>pageToken\<close> and return the whole value printed, so with any
  next-page token in it; \<^verbatim>\<open>list_phone_numbers\<close>, \<^verbatim>\<open>list_users\<close> and \<^verbatim>\<open>list_webhooks\<close>
  declare neither parameter and return only the \<^verbatim>\<open>data\<close> property printed.
\<close>

theorem list_tools_envelope_or_data:
  "(\<forall>req. settle env (fetch env req) = Inr result) \<Longrightarrow>
     (tool_name call \<in> {''list_messages'', ''list_conversations'', ''list_contacts'', ''list_calls''} \<longrightarrow>
        declares (tool_name call) ''maxResults'' \<and> declares (tool_name call) ''pageToken''
        \<and> snd (handler env call)
            = Inr \<lparr>content = [text_block (Some (serialize 2 0 result))], isError = False\<rparr>)
     \<and> (tool_name call \<in> {''list_phone_numbers'', ''list_users'', ''list_webhooks''} \<longrightarrow>
        \<not> declares (tool_name call) ''maxResults'' \<and> \<not> declares (tool_name call) ''pageToken''
        \<and> (result \<noteq> JNull \<longrightarrow>
             snd (handler env call)
               = Inr \<lparr>content = [text_block (JSON_stringify (property result ''data'') 2)],
                      isError = False\<rparr>))"
proof (intro conjI impI)
  assume g: "\<forall>req. settle env (fetch env req) = Inr result"
  {
    assume t: "tool_name call
                 \<in> {''list_messages'', ''list_conversations'', ''list_contacts'', ''list_calls''}"
    show "declares (tool_name call) ''maxResults''" using envelope_tools [OF t] by simp
    show "declares (tool_name call) ''pageToken''" using envelope_tools [OF t] by simp
    show "snd (handler env call)
            = Inr \<lparr>content = [text_block (Some (serialize 2 0 result))], isError = False\<rparr>"
      using envelope_tools [OF t, of env] g by (simp add: envelope_result_def JSON_stringify_def)
  }
  {
    assume t: "tool_name call \<in> {''list_phone_numbers'', ''list_users'', ''list_webhooks''}"
    show "\<not> declares (tool_name call) ''maxResults''" using data_list_tools [OF t] by simp
    show "\<not> declares (tool_name call) ''pageToken''" using data_list_tools [OF t] by simp
    assume "result \<noteq> JNull"
    then show "snd (handler env call)
            = Inr \<lparr>content = [text_block (JSON_stringify (property result ''data'') 2)],
                   isError = False\<rparr>"
      using data_list_tools [OF t, of env] g by (cases result) (simp_all add: data_result_def)
  }
qed

text \<open>
  The theorem at a response with a \<^verbatim>\<open>data\<close> array and a \<^verbatim>\<open>nextPageToken\<close>:
  \<^verbatim>\<open>list_contacts\<close> returns both, \<^verbatim>\<open>list_users\<close> the array only.
\<close>

theorem list_tools_envelope_or_data_witness:
  \<open>(\<forall>req. settle (example_env (answers 200 ''OK'' ''{"data":[{"id":"US1"}],"nextPageToken":"abc"}''))
            (fetch (example_env (answers 200 ''OK'' ''{"data":[{"id":"US1"}],"nextPageToken":"abc"}'')) req)
          = Inr (JObj [(''data'', JArr [JObj [(''id'', JStr ''US1'')]]),
                       (''nextPageToken'', JStr ''abc'')]))
   \<and> tool_name (list_contacts None None None)
       \<in> {''list_messages'', ''list_conversations'', ''list_contacts'', ''list_calls''}
   \<and> snd (handler (example_env (answers 200 ''OK'' ''{"data":[{"id":"US1"}],"nextPageToken":"abc"}''))
            (list_contacts None None None))
       = Inr \<lparr>content = [text_block (Some (join [CHR 0x0A]
                 [''{'',
                  ''  "data": ['',
                  ''    {'',
                  ''      "id": "US1"'',
                  ''    }'',
                  ''  ],'',
                  ''  "nextPageToken": "abc"'',
                  ''}'']))], isError = False\<rparr>
   \<and> tool_name list_users \<in> {''list_phone_numbers'', ''list_users'', ''list_webhooks''}
   \<and> JObj [(''data'', JArr [JObj [(''id'', JStr ''US1'')]]), (''nextPageToken'', JStr ''abc'')]
       \<noteq> JNull
   \<and> snd (handler (example_env (answers 200 ''OK'' ''{"data":[{"id":"US1"}],"nextPageToken":"abc"}''))
            list_users)
       = Inr \<lparr>content = [text_block (Some (join [CHR 0x0A]
                 [''['',
                  ''  {'',
                  ''    "id": "US1"'',
                  ''  }'',
                  '']'']))], isError = False\<rparr>\<close>
proof -
  let ?body = \<open>''{"data":[{"id":"US1"}],"nextPageToken":"abc"}''\<close>
  let ?env = "example_env (answers 200 ''OK'' ?body)"
  let ?result = "JObj [(''data'', JArr [JObj [(''id'', JStr ''US1'')]]),
                       (''nextPageToken'', JStr ''abc'')]"
  have g: "\<forall>req. settle ?env (fetch ?env req) = Inr ?result"
    by (simp add: example_200_settles example_bodies_def)
  have t1: "tool_name (list_contacts None None None)
              \<in> {''list_messages'', ''list_conversations'', ''list_contacts'', ''list_calls''}"
    by simp
  have t2: "tool_name list_users \<in> {''list_phone_numbers'', ''list_users'', ''list_webhooks''}"
    by simp
  have n: "?result \<noteq> JNull" by simp
  show ?thesis
    using g list_tools_envelope_or_data [OF g, of "list_contacts None None None"]
      list_tools_envelope_or_data [OF g, of list_users] t1 t2 n
    by (simp add: stringify_defs property_def)
qed

text \<open>
  C2 as the claim words it fails at \<^verbatim>\<open>list_users\<close>: the tool declares neither
  parameter, and its result is not the envelope: the \<^verbatim>\<open>nextPageToken\<close> is gone.
\<close>

theorem list_users_drops_envelope_counterexample:
  \<open>\<not> declares ''list_users'' ''maxResults''
   \<and> \<not> declares ''list_users'' ''pageToken''
   \<and> snd (handler (example_env (answers 200 ''OK'' ''{"data":[{"id":"US1"}],"nextPageToken":"abc"}''))
            list_users)
       = Inr \<lparr>content = [text_block (Some (join [CHR 0x0A]
                 [''['',
                  ''  {'',
                  ''    "id": "US1"'',
                  ''  }'',
                  '']'']))], isError = False\<rparr>
   \<and> snd (handler (example_env (answers 200 ''OK'' ''{"data":[{"id":"US1"}],"nextPageToken":"abc"}''))
            list_users)
       \<noteq> envelope_result (JObj [(''data'', JArr [JObj [(''id'', JStr ''US1'')]]),
                                (''nextPageToken'', JStr ''abc'')])\<close>
proof -
  let ?body = \<open>''{"data":[{"id":"US1"}],"nextPageToken":"abc"}''\<close>
  let ?env = "example_env (answers 200 ''OK'' ?body)"
  let ?result = "JObj [(''data'', JArr [JObj [(''id'', JStr ''US1'')]]),
                       (''nextPageToken'', JStr ''abc'')]"
  have g: "settle ?env (fetch ?env req) = Inr ?result" for req
    by (simp add: example_200_settles example_bodies_def)
  have h: "snd (handler ?env list_users) = data_result ?result"
    by (simp add: snd_await_quoFetch g)
  show ?thesis
    unfolding h
    by (simp add: declares_def tool_parameters_def data_result_def envelope_result_def
        text_block_def stringify_defs property_def)
qed

subsection \<open>Responses without data\<close>

text \<open>
  C10, as the code has it. For a call whose handler reads \<^verbatim>\<open>result.data\<close>: when the
  gateway returns a value other than \<^verbatim>\<open>null\<close> that has no \<^verbatim>\<open>data\<close> property, and when the
  remote answers with status 204 (the gateway then returns \<^verbatim>\<open>{success: true}\<close>), the handler
  returns a result without the error flag whose one block has the text
  \<^verbatim>\<open>JSON.stringify(undefined, null, 2)\<close>, which is \<^verbatim>\<open>undefined\<close> and not a string.
\<close>

theorem missing_data_gives_undefined_text:
  "unwraps_data call \<Longrightarrow>
     ((\<forall>req. settle env (fetch env req) = Inr result) \<and> result \<noteq> JNull
        \<and> property result ''data'' = None \<longrightarrow>
        snd (handler env call)
          = Inr \<lparr>content = [text_block (JSON_stringify None 2)], isError = False\<rparr>)
     \<and> ((\<forall>req. \<exists>res. fetch env req = Inr res \<and> status res = 204) \<longrightarrow>
        snd (handler env call)
          = Inr \<lparr>content = [text_block (JSON_stringify None 2)], isError = False\<rparr>)
     \<and> JSON_stringify None 2 = None"
proof (intro conjI impI)
  assume u: "unwraps_data call"
  show "JSON_stringify None 2 = None" by (simp add: JSON_stringify_def)
  {
    assume a: "(\<forall>req. settle env (fetch env req) = Inr result) \<and> result \<noteq> JNull
                 \<and> property result ''data'' = None"
    then show "snd (handler env call)
            = Inr \<lparr>content = [text_block (JSON_stringify None 2)], isError = False\<rparr>"
      using unwrapping_tools [OF u, of env] by (cases result) (simp_all add: data_result_def)
  }
  {
    assume a: "\<forall>req. \<exists>res. fetch env req = Inr res \<and> status res = 204"
    have "settle env (fetch env req) = Inr (JObj [(''success'', JBool True)])" for req
      using a settle_204 by (metis)
    then show "snd (handler env call)
            = Inr \<lparr>content = [text_block (JSON_stringify None 2)], isError = False\<rparr>"
      using unwrapping_tools [OF u, of env] by (simp add: data_result_def property_def)
  }
qed

text \<open>
  The theorem at \<^verbatim>\<open>list_users\<close> with the body \<^verbatim>\<open>{"items":[]}\<close> and at \<^verbatim>\<open>get_call\<close> with
  a 204.
\<close>

theorem missing_data_gives_undefined_text_witness:
  \<open>unwraps_data list_users
   \<and> (\<forall>req. settle (example_env (answers 200 ''OK'' ''{"items":[]}''))
              (fetch (example_env (answers 200 ''OK'' ''{"items":[]}'')) req)
            = Inr (JObj [(''items'', JArr [])]))
   \<and> JObj [(''items'', JArr [])] \<noteq> JNull
   \<and> property (JObj [(''items'', JArr [])]) ''data'' = None
   \<and> snd (handler (example_env (answers 200 ''OK'' ''{"items":[]}'')) list_users)
       = Inr \<lparr>content = [text_block None], isError = False\<rparr>
   \<and> unwraps_data (get_call ''AC1'')
   \<and> (\<forall>req. \<exists>res. fetch (example_env (answers_without_body 204 ''No Content'')) req = Inr res
                   \<and> status res = 204)
   \<and> snd (handler (example_env (answers_without_body 204 ''No Content'')) (get_call ''AC1''))
       = Inr \<lparr>content = [text_block None], isError = False\<rparr>\<close>
proof -
  let ?env = \<open>example_env (answers 200 ''OK'' ''{"items":[]}'')\<close>
  let ?env' = "example_env (answers_without_body 204 ''No Content'')"
  have u1: "unwraps_data list_users" by (simp add: unwraps_data_def)
  have u2: "unwraps_data (get_call ''AC1'')" by (simp add: unwraps_data_def)
  have g: "\<forall>req. settle ?env (fetch ?env req) = Inr (JObj [(''items'', JArr [])])"
    by (simp add: example_200_settles example_bodies_def)
  have p: "property (JObj [(''items'', JArr [])]) ''data'' = None" by (simp add: property_def)
  have f: "\<forall>req. \<exists>res. fetch ?env' req = Inr res \<and> status res = 204"
    by (simp add: example_env_def answers_without_body_def)
  show ?thesis
    using missing_data_gives_undefined_text [OF u1, of ?env "JObj [(''items'', JArr [])]"]
      missing_data_gives_undefined_text [OF u2, of ?env' JNull] u1 u2 g p f
    by simp
qed

text \<open>
  C10 as the claim words it fails for the JSON body \<^verbatim>\<open>null\<close>: it has no \<^verbatim>\<open>data\<close>
  field, and reading \<^verbatim>\<open>result.data\<close> throws, so the handler fails instead of returning
  a result.
\<close>

theorem null_body_counterexample:
  "unwraps_data (get_call ''AC1'')
   \<and> property JNull ''data'' = None
   \<and> snd (handler (example_env (answers 200 ''OK'' ''null'')) (get_call ''AC1''))
       = Inl null_data_error"
proof -
  let ?env = "example_env (answers 200 ''OK'' ''null'')"
  have g: "settle ?env (fetch ?env req) = Inr JNull" for req
    by (simp add: example_200_settles example_bodies_def)
  show ?thesis
    by (simp add: unwraps_data_def property_def snd_await_quoFetch g data_result_def)
qed

subsection \<open>The timeout\<close>

text \<open>
  An abort gives the message with the configured timeout: when \<^verbatim>\<open>fetch\<close> rejects with
  an \<^verbatim>\<open>AbortError\<close>; on the timeline, when the status line is not there in time; and when
  the status is an error status and its body is not read in time.
\<close>

lemma abort_gives_timeout_message:
  "fetch env (build_request env path opts) = Inl error \<Longrightarrow> error_name error = ''AbortError'' \<Longrightarrow>
     snd (quoFetch env path opts) = Inl (Error (timeout_message env))"
  by (simp add: quoFetch_def Let_def settle_def catch_block_def)

lemma late_head_times_out:
  "fetch env = timed_fetch (HTTP_TIMEOUT_MS env) ex \<Longrightarrow>
   (case head_ms ex of None \<Rightarrow> True | Some t \<Rightarrow> HTTP_TIMEOUT_MS env \<le> t) \<Longrightarrow>
     snd (quoFetch env path opts) = Inl (Error (timeout_message env))"
  by (auto simp add: quoFetch_def Let_def settle_def catch_block_def timed_fetch_def AbortError_def
      split: option.splits)

lemma late_error_body_times_out:
  "fetch env = timed_fetch (HTTP_TIMEOUT_MS env) ex \<Longrightarrow> head_ms ex = Some t \<Longrightarrow>
   t < HTTP_TIMEOUT_MS env \<Longrightarrow> head ex = Inr (st, st_text) \<Longrightarrow> \<not> (200 \<le> st \<and> st \<le> 299) \<Longrightarrow>
   HTTP_TIMEOUT_MS env \<le> body_ms ex \<Longrightarrow>
     snd (quoFetch env path opts) = Inl (Error (timeout_message env))"
  by (simp add: quoFetch_def Let_def settle_def catch_block_def timed_fetch_def AbortError_def
      res_ok_def res_text_def)

text \<open>
  But a success status other than 204 whose status line is there in time is never timed
  out, however late the body: the outcome does not depend on \<open>body_ms\<close>.
\<close>

lemma late_success_body_is_read:
  "fetch env = timed_fetch (HTTP_TIMEOUT_MS env) ex \<Longrightarrow> head_ms ex = Some t \<Longrightarrow>
   t < HTTP_TIMEOUT_MS env \<Longrightarrow> head ex = Inr (st, st_text) \<Longrightarrow> 200 \<le> st \<Longrightarrow> st \<le> 299 \<Longrightarrow>
   st \<noteq> 204 \<Longrightarrow>
     snd (quoFetch env path opts)
       = (case JSON_parse env (body_text ex) of
            Inl msg \<Rightarrow> Inl \<lparr>error_name = ''SyntaxError'', error_message = msg\<rparr>
          | Inr j \<Rightarrow> Inr j)"
  by (simp add: quoFetch_def Let_def settle_def timed_fetch_def res_ok_def res_json_def)

text \<open>
  C6. The claim is that every request that takes longer than the timeout is aborted and
  fails with the timeout message. With the timeout 30000, a response with status 200 whose
  status line arrives after 120 ms and whose body is complete after 60000 ms is not
  aborted: \<^verbatim>\<open>return res.json()\<close> leaves the \<^verbatim>\<open>try\<close> block before the body is read, so
  \<^verbatim>\<open>finally\<close> has cleared the timer, and \<^verbatim>\<open>quoFetch\<close> returns the parsed body and
  \<^verbatim>\<open>list_users\<close> a success. The same timing with status 500, whose body is read by
  \<^verbatim>\<open>await res.text()\<close> inside \<^verbatim>\<open>try\<close>, gives the timeout message.
\<close>

theorem slow_success_body_is_not_timed_out:
  "HTTP_TIMEOUT_MS (example_env (timed_fetch 30000 (slow_body 200 ''OK''))) = 30000
   \<and> body_ms (slow_body 200 ''OK'') = 60000
   \<and> snd (quoFetch (example_env (timed_fetch 30000 (slow_body 200 ''OK''))) ''/users'' no_options)
       = Inr (JObj [(''data'', JArr [])])
   \<and> snd (handler (example_env (timed_fetch 30000 (slow_body 200 ''OK''))) list_users)
       = Inr \<lparr>content = [text_block (Some ''[]'')], isError = False\<rparr>
   \<and> snd (quoFetch (example_env (timed_fetch 30000 (slow_body 500 ''Internal Server Error'')))
            ''/users'' no_options)
       = Inl (Error ''Quo API request timed out after 30000ms'')"
proof -
  let ?env = "example_env (timed_fetch 30000 (slow_body 200 ''OK''))"
  have q: "snd (quoFetch ?env ''/users'' no_options) = Inr (JObj [(''data'', JArr [])])"
    by (simp add: quoFetch_def Let_def settle_def res_ok_def res_json_def timed_fetch_def
        slow_body_def example_env_def example_parse_def example_bodies_def)
  have h: "snd (handler ?env list_users)
             = Inr \<lparr>content = [text_block (Some ''[]'')], isError = False\<rparr>"
    using q by (simp add: snd_await_quoFetch quoFetch_def Let_def data_result_def property_def
        JSON_stringify_def)
  have e: "snd (quoFetch (example_env (timed_fetch 30000 (slow_body 500 ''Internal Server Error'')))
                  ''/users'' no_options)
             = Inl (Error ''Quo API request timed out after 30000ms'')"
    by (simp add: quoFetch_def Let_def settle_def res_ok_def res_text_def timed_fetch_def
        slow_body_def example_env_def catch_block_def AbortError_def timeout_message_def)
  show ?thesis using q h e by (simp add: example_env_def slow_body_def)
qed

end
